theory Spec2Isabelle
  imports Main "HOL-Library.AList"
begin

section \<open>The tables of the schema\<close>

text \<open>
  The rows of \<^verbatim>\<open>users\<close>, \<^verbatim>\<open>rooms\<close>, \<^verbatim>\<open>room_players\<close>, \<^verbatim>\<open>game_submissions\<close> and
  \<^verbatim>\<open>game_votes\<close>, one record per \<^verbatim>\<open>pgTable\<close>. Integer columns are \<open>int\<close>, text columns
  are \<open>string\<close>, the nullable \<^verbatim>\<open>current_player_id\<close> is an \<open>option\<close>. The timestamp
  columns (\<^verbatim>\<open>createdAt\<close>, \<^verbatim>\<open>updatedAt\<close>, \<^verbatim>\<open>joinedAt\<close>) are left out: they are written
  from the clock and no handler reads them.
\<close>

record user =
  user_id :: int
  user_username :: string
  user_displayName :: string

record room =
  room_id :: string
  room_hostId :: int
  room_status :: string
  room_currentPlayerId :: "int option"
  room_currentRound :: int
  room_maxRounds :: int

record room_player =
  rp_id :: int
  rp_roomId :: string
  rp_userId :: int
  rp_score :: int

record game_submission =
  sub_id :: int
  sub_roomId :: string
  sub_playerId :: int
  sub_round :: int
  sub_phrase :: string
  sub_actualType :: string

record game_vote =
  vote_id :: int
  vote_submissionId :: int
  vote_voterId :: int
  vote_guessedType :: string
  vote_isCorrect :: bool

text \<open>
  A table is the list of its rows, oldest first. The \<^verbatim>\<open>serial\<close> columns draw from a
  sequence per table, which holds the last value handed out. The two joins of the
  storage class carry no \<^verbatim>\<open>ORDER BY\<close>, so the order of their rows is the database's
  choice: it is a ranking of the rows held with the tables, lowest rank first, rows of
  equal rank in the order of insertion.
\<close>

record database =
  users :: "user list"
  users_id_seq :: int
  rooms :: "room list"
  roomPlayers :: "room_player list"
  roomPlayers_id_seq :: int
  roomPlayers_rank :: "room_player \<Rightarrow> int"
  gameSubmissions :: "game_submission list"
  gameSubmissions_id_seq :: int
  gameVotes :: "game_vote list"
  gameVotes_id_seq :: int
  gameVotes_rank :: "game_vote \<Rightarrow> int"

text \<open>The insert schemas: the columns each \<^verbatim>\<open>createInsertSchema(...).pick\<close> keeps.\<close>

record insert_user =
  iu_username :: string
  iu_displayName :: string

record insert_room =
  ir_id :: string
  ir_maxRounds :: "int option"

record insert_room_player =
  irp_roomId :: string
  irp_userId :: int

record insert_game_submission =
  is_roomId :: string
  is_playerId :: int
  is_round :: int
  is_phrase :: string
  is_actualType :: string

record insert_game_vote =
  iv_submissionId :: int
  iv_voterId :: int
  iv_guessedType :: string
  iv_isCorrect :: bool

text \<open>\<^verbatim>\<open>Partial<Room>\<close>, the argument of \<^verbatim>\<open>updateRoom\<close>: every column may be absent.\<close>

record room_updates =
  up_hostId :: "int option"
  up_status :: "string option"
  up_currentPlayerId :: "int option option"
  up_currentRound :: "int option"
  up_maxRounds :: "int option"

section \<open>The storage class\<close>

text \<open>
  A statement is rejected by the database when it breaks a constraint of the schema (a
  primary key, the \<^verbatim>\<open>unique\<close> username, a \<^verbatim>\<open>references\<close> column) or binds a number
  outside the range of an \<^verbatim>\<open>integer\<close> column. A rejected statement throws in the source;
  here it is the \<open>Inl\<close> of a sum. An insert into a table with a \<^verbatim>\<open>serial\<close> column takes
  its id from the sequence before the constraints are checked, so an insert rejected by
  a constraint has still advanced the sequence: a write returns the database it leaves
  behind in both cases. The methods no route calls (\<^verbatim>\<open>deleteRoom\<close>, \<^verbatim>\<open>leaveRoom\<close>,
  \<^verbatim>\<open>updatePlayerScore\<close>, \<^verbatim>\<open>getSubmission\<close>) are left out.
\<close>

datatype db_error = Unavailable | UniqueViolation | ForeignKeyViolation | OutOfRange

type_synonym 'a written = "db_error \<times> database + 'a \<times> database"

definition int4 :: "int \<Rightarrow> bool" where
  "int4 i = (- 2147483648 \<le> i \<and> i \<le> 2147483647)"

definition has_user :: "database \<Rightarrow> int \<Rightarrow> bool" where
  "has_user d i = (\<exists>u \<in> set (users d). user_id u = i)"

definition has_room :: "database \<Rightarrow> string \<Rightarrow> bool" where
  "has_room d i = (\<exists>r \<in> set (rooms d). room_id r = i)"

definition has_submission :: "database \<Rightarrow> int \<Rightarrow> bool" where
  "has_submission d i = (\<exists>x \<in> set (gameSubmissions d). sub_id x = i)"

definition getUser :: "database \<Rightarrow> int \<Rightarrow> db_error + user option" where
  "getUser d i =
     (if \<not> int4 i then Inl OutOfRange else Inr (find (\<lambda>u. user_id u = i) (users d)))"

definition getUserByUsername :: "database \<Rightarrow> string \<Rightarrow> user option" where
  "getUserByUsername d n = find (\<lambda>u. user_username u = n) (users d)"

definition createUser :: "database \<Rightarrow> insert_user \<Rightarrow> user written" where
  "createUser d insertUser =
     (let row = \<lparr>user_id = users_id_seq d + 1,
                 user_username = iu_username insertUser,
                 user_displayName = iu_displayName insertUser\<rparr>;
          d1 = d\<lparr>users_id_seq := user_id row\<rparr>
      in if has_user d (user_id row) then Inl (UniqueViolation, d1)
         else if (\<exists>u \<in> set (users d). user_username u = user_username row)
           then Inl (UniqueViolation, d1)
         else Inr (row, d1\<lparr>users := users d @ [row]\<rparr>))"

definition createRoom :: "database \<Rightarrow> insert_room \<Rightarrow> int \<Rightarrow> room written" where
  "createRoom d insertRoom hostId =
     (let row = \<lparr>room_id = ir_id insertRoom,
                 room_hostId = hostId,
                 room_status = ''waiting'',
                 room_currentPlayerId = None,
                 room_currentRound = 1,
                 room_maxRounds = (case ir_maxRounds insertRoom of None \<Rightarrow> 5 | Some m \<Rightarrow> m)\<rparr>
      in if \<not> int4 hostId then Inl (OutOfRange, d)
         else if has_room d (room_id row) then Inl (UniqueViolation, d)
         else if \<not> has_user d hostId then Inl (ForeignKeyViolation, d)
         else Inr (row, d\<lparr>rooms := rooms d @ [row]\<rparr>))"

definition getRoom :: "database \<Rightarrow> string \<Rightarrow> room option" where
  "getRoom d i = find (\<lambda>r. room_id r = i) (rooms d)"

definition apply_updates :: "room_updates \<Rightarrow> room \<Rightarrow> room" where
  "apply_updates up r =
     r\<lparr>room_hostId := (case up_hostId up of None \<Rightarrow> room_hostId r | Some h \<Rightarrow> h),
       room_status := (case up_status up of None \<Rightarrow> room_status r | Some st \<Rightarrow> st),
       room_currentPlayerId :=
         (case up_currentPlayerId up of None \<Rightarrow> room_currentPlayerId r | Some c \<Rightarrow> c),
       room_currentRound :=
         (case up_currentRound up of None \<Rightarrow> room_currentRound r | Some n \<Rightarrow> n),
       room_maxRounds := (case up_maxRounds up of None \<Rightarrow> room_maxRounds r | Some n \<Rightarrow> n)\<rparr>"

definition updates_refer_to_users :: "database \<Rightarrow> room_updates \<Rightarrow> bool" where
  "updates_refer_to_users d up =
     ((case up_hostId up of None \<Rightarrow> True | Some h \<Rightarrow> has_user d h) \<and>
      (case up_currentPlayerId up of Some (Some c) \<Rightarrow> has_user d c | _ \<Rightarrow> True))"

definition updateRoom :: "database \<Rightarrow> string \<Rightarrow> room_updates \<Rightarrow> room option written" where
  "updateRoom d i up =
     (if \<not> has_room d i then Inr (None, d)
      else if \<not> updates_refer_to_users d up then Inl (ForeignKeyViolation, d)
      else let d' = d\<lparr>rooms := map (\<lambda>r. if room_id r = i then apply_updates up r else r)
                                   (rooms d)\<rparr>
           in Inr (find (\<lambda>r. room_id r = i) (rooms d'), d'))"

definition joinRoom :: "database \<Rightarrow> insert_room_player \<Rightarrow> room_player written" where
  "joinRoom d roomPlayer =
     (let row = \<lparr>rp_id = roomPlayers_id_seq d + 1,
                 rp_roomId = irp_roomId roomPlayer,
                 rp_userId = irp_userId roomPlayer,
                 rp_score = 0\<rparr>;
          d1 = d\<lparr>roomPlayers_id_seq := rp_id row\<rparr>
      in if \<not> int4 (rp_userId row) then Inl (OutOfRange, d)
         else if (\<exists>p \<in> set (roomPlayers d). rp_id p = rp_id row) then Inl (UniqueViolation, d1)
         else if \<not> has_room d (rp_roomId row) \<or> \<not> has_user d (rp_userId row)
           then Inl (ForeignKeyViolation, d1)
         else Inr (row, d1\<lparr>roomPlayers := roomPlayers d @ [row]\<rparr>))"

text \<open>
  \<^verbatim>\<open>getRoomPlayers\<close> is an inner join with \<^verbatim>\<open>users\<close> and has no \<^verbatim>\<open>ORDER BY\<close>: its rows come
  in the order of \<open>roomPlayers_rank\<close>. \<^verbatim>\<open>getVotes\<close> is built the same way.
\<close>

definition getRoomPlayers :: "database \<Rightarrow> string \<Rightarrow> (room_player \<times> user) list" where
  "getRoomPlayers d roomId =
     sort_key (\<lambda>(p, u). roomPlayers_rank d p)
       (concat (map (\<lambda>p. map (\<lambda>u. (p, u)) (filter (\<lambda>u. user_id u = rp_userId p) (users d)))
                    (filter (\<lambda>p. rp_roomId p = roomId) (roomPlayers d))))"

definition createSubmission ::
  "database \<Rightarrow> insert_game_submission \<Rightarrow> game_submission written" where
  "createSubmission d submission =
     (let row = \<lparr>sub_id = gameSubmissions_id_seq d + 1,
                 sub_roomId = is_roomId submission,
                 sub_playerId = is_playerId submission,
                 sub_round = is_round submission,
                 sub_phrase = is_phrase submission,
                 sub_actualType = is_actualType submission\<rparr>;
          d1 = d\<lparr>gameSubmissions_id_seq := sub_id row\<rparr>
      in if has_submission d (sub_id row) then Inl (UniqueViolation, d1)
         else if \<not> has_room d (sub_roomId row) \<or> \<not> has_user d (sub_playerId row)
           then Inl (ForeignKeyViolation, d1)
         else Inr (row, d1\<lparr>gameSubmissions := gameSubmissions d @ [row]\<rparr>))"

definition createVote :: "database \<Rightarrow> insert_game_vote \<Rightarrow> game_vote written" where
  "createVote d vote =
     (let row = \<lparr>vote_id = gameVotes_id_seq d + 1,
                 vote_submissionId = iv_submissionId vote,
                 vote_voterId = iv_voterId vote,
                 vote_guessedType = iv_guessedType vote,
                 vote_isCorrect = iv_isCorrect vote\<rparr>;
          d1 = d\<lparr>gameVotes_id_seq := vote_id row\<rparr>
      in if (\<exists>v \<in> set (gameVotes d). vote_id v = vote_id row) then Inl (UniqueViolation, d1)
         else if \<not> has_submission d (vote_submissionId row) \<or> \<not> has_user d (vote_voterId row)
           then Inl (ForeignKeyViolation, d1)
         else Inr (row, d1\<lparr>gameVotes := gameVotes d @ [row]\<rparr>))"

definition getVotes :: "database \<Rightarrow> int \<Rightarrow> db_error + (game_vote \<times> user) list" where
  "getVotes d submissionId =
     (if \<not> int4 submissionId then Inl OutOfRange
      else Inr (sort_key (\<lambda>(v, u). gameVotes_rank d v)
             (concat (map (\<lambda>v. map (\<lambda>u. (v, u))
                                   (filter (\<lambda>u. user_id u = vote_voterId v) (users d)))
                          (filter (\<lambda>v. vote_submissionId v = submissionId) (gameVotes d))))))"

definition hasUserVoted :: "database \<Rightarrow> int \<Rightarrow> int \<Rightarrow> bool" where
  "hasUserVoted d submissionId voterId =
     (0 < length (take 1 (filter (\<lambda>v. vote_submissionId v = submissionId \<and>
                                        vote_voterId v = voterId) (gameVotes d))))"

text \<open>
  Every method of \<^verbatim>\<open>DbStorage\<close> is one HTTP round trip of the \<^verbatim>\<open>neon-http\<close> driver, and a
  round trip has one of three ends: it is answered; it fails before the statement has
  run; or it fails after the statement has run and been committed, so that the caller
  sees an error and the database holds what the statement did. A handler takes the list
  of these ends for the calls it makes, in order; a call past the end of the list is
  answered. \<open>query\<close> is a call that reads, \<open>attempt\<close> a call that writes to the database
  \<open>d\<close>.
\<close>

datatype outcome = Answered | Lost_request | Lost_response

definition outcome_of :: "outcome list \<Rightarrow> nat \<Rightarrow> outcome" where
  "outcome_of fl i = (if i < length fl then fl ! i else Answered)"

definition faulty :: "outcome list \<Rightarrow> nat \<Rightarrow> bool" where
  "faulty fl i = (outcome_of fl i \<noteq> Answered)"

definition query :: "outcome \<Rightarrow> db_error + 'a \<Rightarrow> db_error + 'a" where
  "query out r = (if out = Answered then r else Inl Unavailable)"

definition database_after :: "'a written \<Rightarrow> database" where
  "database_after r = (case r of Inl (e, d') \<Rightarrow> d' | Inr (x, d') \<Rightarrow> d')"

definition attempt :: "outcome \<Rightarrow> database \<Rightarrow> 'a written \<Rightarrow> 'a written" where
  "attempt out d r =
     (if out = Answered then r
      else if out = Lost_request then Inl (Unavailable, d)
      else Inl (Unavailable, database_after r))"

section \<open>The connection registry\<close>

text \<open>
  A socket is known by its identity. \<^verbatim>\<open>roomConnections\<close> and \<^verbatim>\<open>userConnections\<close> are
  JavaScript \<^verbatim>\<open>Map\<close>s and the values of the first are \<^verbatim>\<open>Set\<close>s: both iterate in
  insertion order, so a \<^verbatim>\<open>Map\<close> is an association list (\<^verbatim>\<open>set\<close> on a present key
  keeps its place, on a new key appends) and a \<^verbatim>\<open>Set\<close> is a list that \<open>set_add\<close> keeps
  free of duplicates. What \<^verbatim>\<open>ws.send\<close> is given is recorded in \<open>sent\<close>, oldest first;
  \<^verbatim>\<open>send\<close> on an open socket does not throw. A message is the JSON value handed to
  \<^verbatim>\<open>JSON.stringify\<close>, and the text it is turned into stands for that value.
\<close>

type_synonym ws = nat

datatype ready_state = CONNECTING | OPEN | CLOSING | CLOSED

datatype json = JNull | JBool bool | JNum int | JStr string | JObj "(string \<times> json) list"

record server =
  db :: database
  roomConnections :: "(string \<times> ws list) list"
  userConnections :: "(int \<times> ws) list"
  readyState :: "ws \<Rightarrow> ready_state"
  sent :: "(ws \<times> json) list"

definition set_add :: "'a \<Rightarrow> 'a list \<Rightarrow> 'a list" where
  "set_add x xs = (if x \<in> set xs then xs else xs @ [x])"

definition JSON_stringify :: "json \<Rightarrow> json" where
  "JSON_stringify message = message"

definition send :: "server \<Rightarrow> ws \<Rightarrow> json \<Rightarrow> server" where
  "send s w messageStr = s\<lparr>sent := sent s @ [(w, messageStr)]\<rparr>"

definition broadcastToRoom :: "server \<Rightarrow> string \<Rightarrow> json \<Rightarrow> server" where
  "broadcastToRoom s roomId message =
     (case map_of (roomConnections s) roomId of
        None \<Rightarrow> s
      | Some connections \<Rightarrow>
          let messageStr = JSON_stringify message
          in foldl (\<lambda>s' w. if readyState s' w = OPEN then send s' w messageStr else s')
                   s connections)"

datatype ws_message = Join_room string int | Other_message

definition user_joined :: "int \<Rightarrow> json" where
  "user_joined userId = JObj [(''type'', JStr ''user_joined''), (''userId'', JNum userId)]"

definition ws_on_message :: "server \<Rightarrow> ws \<Rightarrow> ws_message \<Rightarrow> server" where
  "ws_on_message s w m =
     (case m of
        Other_message \<Rightarrow> s
      | Join_room roomId userId \<Rightarrow>
          let rc = (if map_of (roomConnections s) roomId = None
                    then AList.update roomId [] (roomConnections s)
                    else roomConnections s);
              connections = (case map_of rc roomId of None \<Rightarrow> [] | Some c \<Rightarrow> c);
              s1 = s\<lparr>roomConnections := AList.update roomId (set_add w connections) rc,
                     userConnections := AList.update userId w (userConnections s)\<rparr>
          in broadcastToRoom s1 roomId (user_joined userId))"

fun delete_first_bound :: "ws \<Rightarrow> (int \<times> ws) list \<Rightarrow> (int \<times> ws) list" where
  "delete_first_bound w [] = []"
| "delete_first_bound w ((userId, connection) # m) =
     (if connection = w then m else (userId, connection) # delete_first_bound w m)"

definition ws_on_close :: "server \<Rightarrow> ws \<Rightarrow> server" where
  "ws_on_close s w =
     s\<lparr>roomConnections :=
         filter (\<lambda>(roomId, connections). connections \<noteq> [])
                (map (\<lambda>(roomId, connections). (roomId, removeAll w connections))
                     (roomConnections s)),
       userConnections := delete_first_bound w (userConnections s)\<rparr>"

section \<open>The routes\<close>

text \<open>
  A request body is the record of the fields a handler looks at; a field is \<open>None\<close> when
  it is absent or not of the type the schema asks for (an integer outside the range of
  the column is not of its type), and the \<^verbatim>\<open>parse\<close> of an insert schema throws exactly
  then. \<^verbatim>\<open>maxRounds\<close> has a column default, so its schema field is optional: absent it
  parses, present and ill-typed (or null) it does not. \<^verbatim>\<open>hostId\<close> and \<^verbatim>\<open>userId\<close> are read
  from the raw body and only tested for truthiness (\<open>0\<close> and an absent field are falsy).
\<close>

datatype 'a optional = Absent | Ill_typed | Present 'a

record user_body =
  ub_username :: "string option"
  ub_displayName :: "string option"

record room_body =
  rb_id :: "string option"
  rb_maxRounds :: "int optional"
  rb_hostId :: "int option"

record join_body =
  jb_userId :: "int option"

record start_body =
  sb_hostId :: "int option"

record submission_body =
  gb_roomId :: "string option"
  gb_playerId :: "int option"
  gb_round :: "int option"
  gb_phrase :: "string option"
  gb_actualType :: "string option"

record vote_body =
  vb_submissionId :: "int option"
  vb_voterId :: "int option"
  vb_guessedType :: "string option"
  vb_isCorrect :: "bool option"

definition insertUserSchema :: "user_body \<Rightarrow> insert_user option" where
  "insertUserSchema b =
     (case (ub_username b, ub_displayName b) of
        (Some n, Some dn) \<Rightarrow> Some \<lparr>iu_username = n, iu_displayName = dn\<rparr>
      | _ \<Rightarrow> None)"

definition insertRoomSchema :: "room_body \<Rightarrow> insert_room option" where
  "insertRoomSchema b =
     (case rb_id b of
        None \<Rightarrow> None
      | Some i \<Rightarrow>
          (case rb_maxRounds b of
             Ill_typed \<Rightarrow> None
           | Absent \<Rightarrow> Some \<lparr>ir_id = i, ir_maxRounds = None\<rparr>
           | Present m \<Rightarrow> Some \<lparr>ir_id = i, ir_maxRounds = Some m\<rparr>))"

definition insertGameSubmissionSchema :: "submission_body \<Rightarrow> insert_game_submission option" where
  "insertGameSubmissionSchema b =
     (case (gb_roomId b, gb_playerId b, gb_round b, gb_phrase b, gb_actualType b) of
        (Some r, Some p, Some n, Some ph, Some t) \<Rightarrow>
          Some \<lparr>is_roomId = r, is_playerId = p, is_round = n, is_phrase = ph, is_actualType = t\<rparr>
      | _ \<Rightarrow> None)"

definition insertGameVoteSchema :: "vote_body \<Rightarrow> insert_game_vote option" where
  "insertGameVoteSchema b =
     (case (vb_submissionId b, vb_voterId b, vb_guessedType b, vb_isCorrect b) of
        (Some x, Some v, Some g, Some c) \<Rightarrow>
          Some \<lparr>iv_submissionId = x, iv_voterId = v, iv_guessedType = g, iv_isCorrect = c\<rparr>
      | _ \<Rightarrow> None)"

definition falsy :: "int option \<Rightarrow> bool" where
  "falsy v = (v = None \<or> v = Some 0)"

text \<open>What \<^verbatim>\<open>res.status(n).json(...)\<close> sends: the status and the body.\<close>

datatype body =
    BError string
  | BUser user
  | BRoom "room option"
  | BRoomWithPlayers room "(room_player \<times> user) list"
  | BRoomPlayer room_player
  | BSubmission game_submission
  | BVote game_vote
  | BVotes "(game_vote \<times> user) list"

datatype response = Response nat body

text \<open>The errors of the specification, as the responses the routes send for them.\<close>

definition RoomNotFound :: response where
  "RoomNotFound = Response 404 (BError ''Room not found'')"

definition Forbidden :: response where
  "Forbidden = Response 403 (BError ''Only host can start the game'')"

definition GameAlreadyStarted :: response where
  "GameAlreadyStarted = Response 400 (BError ''Game already in progress'')"

definition InsufficientPlayers :: response where
  "InsufficientPlayers = Response 400 (BError ''Need at least 2 players to start'')"

definition NotYourTurn :: response where
  "NotYourTurn = Response 400 (BError ''Not your turn'')"

definition AlreadyVoted :: response where
  "AlreadyVoted = Response 400 (BError ''Already voted'')"

text \<open>The events the routes broadcast.\<close>

definition player_joined :: "room_player \<Rightarrow> json" where
  "player_joined roomPlayer =
     JObj [(''type'', JStr ''player_joined''),
           (''player'', JObj [(''id'', JNum (rp_id roomPlayer)),
                             (''roomId'', JStr (rp_roomId roomPlayer)),
                             (''userId'', JNum (rp_userId roomPlayer)),
                             (''score'', JNum (rp_score roomPlayer))])]"

definition game_started :: "int \<Rightarrow> json" where
  "game_started currentPlayerId =
     JObj [(''type'', JStr ''game_started''), (''currentPlayerId'', JNum currentPlayerId)]"

definition new_submission :: "game_submission \<Rightarrow> json" where
  "new_submission submission =
     JObj [(''type'', JStr ''new_submission''),
           (''submission'', JObj [(''id'', JNum (sub_id submission)),
                                 (''phrase'', JStr (sub_phrase submission)),
                                 (''round'', JNum (sub_round submission)),
                                 (''playerId'', JNum (sub_playerId submission))])]"

text \<open>
  Each handler runs from its first line to its response with no other handler in
  between: the interleavings of two requests at an \<^verbatim>\<open>await\<close> are not part of the model.
  The \<^verbatim>\<open>catch\<close> of a handler is the \<open>Inl\<close> branch of each storage call; after a write
  that threw, the database is the one the write left behind.
\<close>

definition post_api_users :: "outcome list \<Rightarrow> server \<Rightarrow> user_body \<Rightarrow> server \<times> response" where
  "post_api_users fl s b =
     (case insertUserSchema b of
        None \<Rightarrow> (s, Response 400 (BError ''Invalid user data''))
      | Some userData \<Rightarrow>
          (case query (outcome_of fl 0)
                  (Inr (getUserByUsername (db s) (iu_username userData))) of
             Inl e \<Rightarrow> (s, Response 400 (BError ''Invalid user data''))
           | Inr (Some existingUser) \<Rightarrow> (s, Response 400 (BError ''Username already taken''))
           | Inr None \<Rightarrow>
               (case attempt (outcome_of fl 1) (db s) (createUser (db s) userData) of
                  Inl (e, d) \<Rightarrow> (s\<lparr>db := d\<rparr>, Response 400 (BError ''Invalid user data''))
                | Inr (user, d) \<Rightarrow> (s\<lparr>db := d\<rparr>, Response 200 (BUser user)))))"

definition get_api_users_id :: "outcome list \<Rightarrow> server \<Rightarrow> int option \<Rightarrow> server \<times> response" where
  "get_api_users_id fl s userId =
     (case userId of
        None \<Rightarrow> (s, Response 500 (BError ''Internal Server Error''))
      | Some i \<Rightarrow>
          (case query (outcome_of fl 0) (getUser (db s) i) of
             Inl e \<Rightarrow> (s, Response 500 (BError ''Internal Server Error''))
           | Inr None \<Rightarrow> (s, Response 404 (BError ''User not found''))
           | Inr (Some user) \<Rightarrow> (s, Response 200 (BUser user))))"

definition post_api_rooms :: "outcome list \<Rightarrow> server \<Rightarrow> room_body \<Rightarrow> server \<times> response" where
  "post_api_rooms fl s b =
     (case insertRoomSchema b of
        None \<Rightarrow> (s, Response 400 (BError ''Invalid room data''))
      | Some roomData \<Rightarrow>
          if falsy (rb_hostId b) then (s, Response 400 (BError ''Host ID is required''))
          else
            (case rb_hostId b of
               None \<Rightarrow> (s, Response 400 (BError ''Host ID is required''))
             | Some hostId \<Rightarrow>
                 (case attempt (outcome_of fl 0) (db s) (createRoom (db s) roomData hostId) of
                    Inl (e, d0) \<Rightarrow> (s\<lparr>db := d0\<rparr>, Response 400 (BError ''Invalid room data''))
                  | Inr (room, d1) \<Rightarrow>
                      (case attempt (outcome_of fl 1) d1
                              (joinRoom d1 \<lparr>irp_roomId = room_id room, irp_userId = hostId\<rparr>) of
                         Inl (e, d2) \<Rightarrow>
                           (s\<lparr>db := d2\<rparr>, Response 400 (BError ''Invalid room data''))
                       | Inr (roomPlayer, d2) \<Rightarrow>
                           (s\<lparr>db := d2\<rparr>, Response 200 (BRoom (Some room)))))))"

definition get_api_rooms_id :: "outcome list \<Rightarrow> server \<Rightarrow> string \<Rightarrow> server \<times> response" where
  "get_api_rooms_id fl s roomId =
     (case query (outcome_of fl 0) (Inr (getRoom (db s) roomId)) of
        Inl e \<Rightarrow> (s, Response 500 (BError ''Internal Server Error''))
      | Inr None \<Rightarrow> (s, RoomNotFound)
      | Inr (Some room) \<Rightarrow>
          (case query (outcome_of fl 1) (Inr (getRoomPlayers (db s) roomId)) of
             Inl e \<Rightarrow> (s, Response 500 (BError ''Internal Server Error''))
           | Inr players \<Rightarrow> (s, Response 200 (BRoomWithPlayers room players))))"

definition post_api_rooms_id_join ::
  "outcome list \<Rightarrow> server \<Rightarrow> string \<Rightarrow> join_body \<Rightarrow> server \<times> response" where
  "post_api_rooms_id_join fl s roomId b =
     (if falsy (jb_userId b) then (s, Response 400 (BError ''User ID is required''))
      else
        (case jb_userId b of
           None \<Rightarrow> (s, Response 400 (BError ''User ID is required''))
         | Some userId \<Rightarrow>
             (case query (outcome_of fl 0) (Inr (getRoom (db s) roomId)) of
                Inl e \<Rightarrow> (s, Response 400 (BError ''Failed to join room''))
              | Inr None \<Rightarrow> (s, RoomNotFound)
              | Inr (Some room) \<Rightarrow>
                  if room_status room \<noteq> ''waiting'' then (s, GameAlreadyStarted)
                  else
                    (case attempt (outcome_of fl 1) (db s)
                            (joinRoom (db s) \<lparr>irp_roomId = roomId, irp_userId = userId\<rparr>) of
                       Inl (e, d) \<Rightarrow>
                         (s\<lparr>db := d\<rparr>, Response 400 (BError ''Failed to join room''))
                     | Inr (roomPlayer, d) \<Rightarrow>
                         (broadcastToRoom (s\<lparr>db := d\<rparr>) roomId (player_joined roomPlayer),
                          Response 200 (BRoomPlayer roomPlayer))))))"

definition post_api_rooms_id_start ::
  "outcome list \<Rightarrow> server \<Rightarrow> string \<Rightarrow> start_body \<Rightarrow> server \<times> response" where
  "post_api_rooms_id_start fl s roomId b =
     (case query (outcome_of fl 0) (Inr (getRoom (db s) roomId)) of
        Inl e \<Rightarrow> (s, Response 500 (BError ''Failed to start game''))
      | Inr None \<Rightarrow> (s, RoomNotFound)
      | Inr (Some room) \<Rightarrow>
          if Some (room_hostId room) \<noteq> sb_hostId b then (s, Forbidden)
          else
            (case query (outcome_of fl 1) (Inr (getRoomPlayers (db s) roomId)) of
               Inl e \<Rightarrow> (s, Response 500 (BError ''Failed to start game''))
             | Inr players \<Rightarrow>
                 if length players < 2 then (s, InsufficientPlayers)
                 else
                   (case attempt (outcome_of fl 2) (db s)
                           (updateRoom (db s) roomId
                              \<lparr>up_hostId = None,
                               up_status = Some ''playing'',
                               up_currentPlayerId = Some (Some (rp_userId (fst (hd players)))),
                               up_currentRound = None,
                               up_maxRounds = None\<rparr>) of
                      Inl (e, d) \<Rightarrow>
                        (s\<lparr>db := d\<rparr>, Response 500 (BError ''Failed to start game''))
                    | Inr (updatedRoom, d) \<Rightarrow>
                        (broadcastToRoom (s\<lparr>db := d\<rparr>) roomId
                           (game_started (rp_userId (fst (hd players)))),
                         Response 200 (BRoom updatedRoom)))))"

definition post_api_submissions ::
  "outcome list \<Rightarrow> server \<Rightarrow> submission_body \<Rightarrow> server \<times> response" where
  "post_api_submissions fl s b =
     (case insertGameSubmissionSchema b of
        None \<Rightarrow> (s, Response 400 (BError ''Invalid submission data''))
      | Some submissionData \<Rightarrow>
          (case query (outcome_of fl 0) (Inr (getRoom (db s) (is_roomId submissionData))) of
             Inl e \<Rightarrow> (s, Response 400 (BError ''Invalid submission data''))
           | Inr None \<Rightarrow> (s, RoomNotFound)
           | Inr (Some room) \<Rightarrow>
               if room_currentPlayerId room \<noteq> Some (is_playerId submissionData)
               then (s, NotYourTurn)
               else
                 (case attempt (outcome_of fl 1) (db s)
                         (createSubmission (db s) submissionData) of
                    Inl (e, d) \<Rightarrow>
                      (s\<lparr>db := d\<rparr>, Response 400 (BError ''Invalid submission data''))
                  | Inr (submission, d) \<Rightarrow>
                      (broadcastToRoom (s\<lparr>db := d\<rparr>) (is_roomId submissionData)
                         (new_submission submission),
                       Response 200 (BSubmission submission)))))"

definition post_api_votes :: "outcome list \<Rightarrow> server \<Rightarrow> vote_body \<Rightarrow> server \<times> response" where
  "post_api_votes fl s b =
     (case insertGameVoteSchema b of
        None \<Rightarrow> (s, Response 400 (BError ''Invalid vote data''))
      | Some voteData \<Rightarrow>
          (case query (outcome_of fl 0)
                  (Inr (hasUserVoted (db s) (iv_submissionId voteData) (iv_voterId voteData))) of
             Inl e \<Rightarrow> (s, Response 400 (BError ''Invalid vote data''))
           | Inr hasVoted \<Rightarrow>
               if hasVoted then (s, AlreadyVoted)
               else
                 (case attempt (outcome_of fl 1) (db s) (createVote (db s) voteData) of
                    Inl (e, d) \<Rightarrow> (s\<lparr>db := d\<rparr>, Response 400 (BError ''Invalid vote data''))
                  | Inr (vote, d) \<Rightarrow> (s\<lparr>db := d\<rparr>, Response 200 (BVote vote)))))"

definition get_api_submissions_id_votes ::
  "outcome list \<Rightarrow> server \<Rightarrow> int option \<Rightarrow> server \<times> response" where
  "get_api_submissions_id_votes fl s submissionId =
     (case submissionId of
        None \<Rightarrow> (s, Response 500 (BError ''Internal Server Error''))
      | Some i \<Rightarrow>
          (case query (outcome_of fl 0) (getVotes (db s) i) of
             Inl e \<Rightarrow> (s, Response 500 (BError ''Internal Server Error''))
           | Inr votes \<Rightarrow> (s, Response 200 (BVotes votes))))"

section \<open>The server as a whole\<close>

text \<open>
  What can reach the process: a request on one of the nine routes, together with the
  ends of its storage round trips, or an event of the WebSocket server. A new socket
  is open, a socket that starts its closing handshake is closing, and a socket whose
  \<^verbatim>\<open>close\<close> event fires is closed. Beside the process, the database may change the
  order in which it returns the rows of a join.
\<close>

datatype request =
    Post_users user_body
  | Get_user "int option"
  | Post_rooms room_body
  | Get_room string
  | Post_join string join_body
  | Post_start string start_body
  | Post_submissions submission_body
  | Post_votes vote_body
  | Get_votes "int option"

datatype event =
    Http "outcome list" request
  | Ws_connection ws
  | Ws_message ws ws_message
  | Ws_closing ws
  | Ws_close ws
  | Replan_players "room_player \<Rightarrow> int"
  | Replan_votes "game_vote \<Rightarrow> int"

fun handle :: "outcome list \<Rightarrow> server \<Rightarrow> request \<Rightarrow> server \<times> response" where
  "handle fl s (Post_users b) = post_api_users fl s b"
| "handle fl s (Get_user i) = get_api_users_id fl s i"
| "handle fl s (Post_rooms b) = post_api_rooms fl s b"
| "handle fl s (Get_room i) = get_api_rooms_id fl s i"
| "handle fl s (Post_join i b) = post_api_rooms_id_join fl s i b"
| "handle fl s (Post_start i b) = post_api_rooms_id_start fl s i b"
| "handle fl s (Post_submissions b) = post_api_submissions fl s b"
| "handle fl s (Post_votes b) = post_api_votes fl s b"
| "handle fl s (Get_votes i) = get_api_submissions_id_votes fl s i"

fun step :: "server \<Rightarrow> event \<Rightarrow> server" where
  "step s (Http fl r) = fst (handle fl s r)"
| "step s (Ws_connection w) = s\<lparr>readyState := (readyState s)(w := OPEN)\<rparr>"
| "step s (Ws_message w m) = ws_on_message s w m"
| "step s (Ws_closing w) = s\<lparr>readyState := (readyState s)(w := CLOSING)\<rparr>"
| "step s (Ws_close w) = ws_on_close (s\<lparr>readyState := (readyState s)(w := CLOSED)\<rparr>) w"
| "step s (Replan_players rank) = s\<lparr>db := (db s)\<lparr>roomPlayers_rank := rank\<rparr>\<rparr>"
| "step s (Replan_votes rank) = s\<lparr>db := (db s)\<lparr>gameVotes_rank := rank\<rparr>\<rparr>"


definition run :: "server \<Rightarrow> event list \<Rightarrow> server" where
  "run s es = foldl step s es"

definition empty_database :: database where
  "empty_database =
     \<lparr>users = [], users_id_seq = 0, rooms = [], roomPlayers = [], roomPlayers_id_seq = 0,
      roomPlayers_rank = (\<lambda>p. 0),
      gameSubmissions = [], gameSubmissions_id_seq = 0, gameVotes = [], gameVotes_id_seq = 0,
      gameVotes_rank = (\<lambda>v. 0)\<rparr>"

definition init :: server where
  "init = \<lparr>db = empty_database, roomConnections = [], userConnections = [],
           readyState = (\<lambda>w. CLOSED), sent = []\<rparr>"

text \<open>
  The set of a room in \<^verbatim>\<open>roomConnections\<close> (empty when the room has no entry), and the
  sockets of it that are open.
\<close>

definition connections_of :: "server \<Rightarrow> string \<Rightarrow> ws list" where
  "connections_of s roomId =
     (case map_of (roomConnections s) roomId of None \<Rightarrow> [] | Some c \<Rightarrow> c)"

definition receivers :: "server \<Rightarrow> string \<Rightarrow> ws list" where
  "receivers s roomId = filter (\<lambda>w. readyState s w = OPEN) (connections_of s roomId)"

text \<open>The rows of the players' join in the order of insertion, before the ranking.\<close>

definition player_rows :: "database \<Rightarrow> string \<Rightarrow> (room_player \<times> user) list" where
  "player_rows d roomId =
     concat (map (\<lambda>p. map (\<lambda>u. (p, u)) (filter (\<lambda>u. user_id u = rp_userId p) (users d)))
                 (filter (\<lambda>p. rp_roomId p = roomId) (roomPlayers d)))"

section \<open>Concrete runs\<close>

text \<open>
  The scenario of the specification, event by event: two users, the room ``ABC123''
  hosted by user 1, both sockets bound, user 2 joined, the game started, a phrase
  submitted.
\<close>

definition lobby_events :: "event list" where
  "lobby_events =
     [Http [] (Post_users \<lparr>ub_username = Some ''ann'', ub_displayName = Some ''Ann''\<rparr>),
      Http [] (Post_users \<lparr>ub_username = Some ''bob'', ub_displayName = Some ''Bob''\<rparr>),
      Http [] (Post_rooms \<lparr>rb_id = Some ''ABC123'', rb_maxRounds = Present 5,
                            rb_hostId = Some 1\<rparr>),
      Ws_connection 10,
      Ws_message 10 (Join_room ''ABC123'' 1),
      Http [] (Post_join ''ABC123'' \<lparr>jb_userId = Some 2\<rparr>),
      Ws_connection 20,
      Ws_message 20 (Join_room ''ABC123'' 2)]"

definition lobby :: server where
  "lobby = run init lobby_events"

definition start_by_host :: request where
  "start_by_host = Post_start ''ABC123'' \<lparr>sb_hostId = Some 1\<rparr>"

definition playing :: server where
  "playing = step lobby (Http [] start_by_host)"

definition karaoke :: submission_body where
  "karaoke = \<lparr>gb_roomId = Some ''ABC123'', gb_playerId = Some 1, gb_round = Some 1,
              gb_phrase = Some ''I once sang karaoke badly'',
              gb_actualType = Some ''truth''\<rparr>"

definition voting :: server where
  "voting = step playing (Http [] (Post_submissions karaoke))"

text \<open>Sockets alone: two rooms with one closing socket, and a user with a second socket.\<close>

definition three_sockets :: server where
  "three_sockets =
     run init [Ws_connection 10, Ws_message 10 (Join_room ''A'' 7),
               Ws_connection 20, Ws_message 20 (Join_room ''A'' 8),
               Ws_connection 30, Ws_message 30 (Join_room ''B'' 9),
               Ws_closing 20]"

definition rebound :: server where
  "rebound =
     run init [Ws_connection 10, Ws_message 10 (Join_room ''ABC123'' 1),
               Ws_connection 11]"

text \<open>The host alone in the room, before anyone joins.\<close>

definition host_alone :: server where
  "host_alone = run init (take 3 lobby_events)"

text \<open>Requests used below: a submission by user 2, a vote, and the creation of a room.\<close>

definition karaoke_by_bob :: submission_body where
  "karaoke_by_bob = karaoke\<lparr>gb_playerId := Some 2\<rparr>"

definition vote_by_bob :: vote_body where
  "vote_by_bob = \<lparr>vb_submissionId = Some 1, vb_voterId = Some 2,
                  vb_guessedType = Some ''meme'', vb_isCorrect = Some True\<rparr>"

definition create_abc :: room_body where
  "create_abc = \<lparr>rb_id = Some ''ABC123'', rb_maxRounds = Present 5, rb_hostId = Some 1\<rparr>"

definition two_users :: server where
  "two_users = run init (take 2 lobby_events)"

definition voted :: server where
  "voted = step voting (Http [] (Post_votes vote_by_bob))"

text \<open>
  The host joins the own room a second time; the database returns the newest player
  row first; a join request of a user that does not exist.
\<close>

definition host_twice :: server where
  "host_twice = step host_alone (Http [] (Post_join ''ABC123'' \<lparr>jb_userId = Some 1\<rparr>))"

definition newest_first :: "room_player \<Rightarrow> int" where
  "newest_first p = - rp_id p"

definition lobby_newest_first :: server where
  "lobby_newest_first = step lobby (Replan_players newest_first)"

definition playing_newest_first :: server where
  "playing_newest_first = step playing (Replan_players newest_first)"

definition join_by_stranger :: join_body where
  "join_by_stranger = \<lparr>jb_userId = Some 99\<rparr>"

definition same_rows :: "database \<Rightarrow> database \<Rightarrow> bool" where
  "same_rows d d' =
     (users d' = users d \<and> rooms d' = rooms d \<and> roomPlayers d' = roomPlayers d \<and>
      gameSubmissions d' = gameSubmissions d \<and> gameVotes d' = gameVotes d)"

section \<open>Lemmas on the model\<close>

lemmas route_defs =
  insertUserSchema_def insertRoomSchema_def insertGameSubmissionSchema_def
  insertGameVoteSchema_def falsy_def post_api_users_def get_api_users_id_def
  post_api_rooms_def get_api_rooms_id_def post_api_rooms_id_join_def
  post_api_rooms_id_start_def post_api_submissions_def post_api_votes_def
  get_api_submissions_id_votes_def

lemmas error_defs =
  RoomNotFound_def Forbidden_def GameAlreadyStarted_def InsufficientPlayers_def
  NotYourTurn_def AlreadyVoted_def

subsection \<open>Broadcast and binding\<close>

lemma foldl_send:
  "foldl (\<lambda>s' w. if readyState s' w = OPEN then send s' w m else s') s cs =
     s\<lparr>sent := sent s @ map (\<lambda>w. (w, m)) (filter (\<lambda>w. readyState s w = OPEN) cs)\<rparr>"
proof (induction cs arbitrary: s)
  case Nil
  show ?case by simp
next
  case (Cons c cs)
  show ?case by (simp add: Cons.IH send_def)
qed

lemma broadcastToRoom_eq:
  "broadcastToRoom s roomId message =
     s\<lparr>sent := sent s @ map (\<lambda>w. (w, JSON_stringify message)) (receivers s roomId)\<rparr>"
  by (simp add: broadcastToRoom_def receivers_def connections_of_def foldl_send
           split: option.split)

lemma receivers_db [simp]: "receivers (s\<lparr>db := d\<rparr>) roomId = receivers s roomId"
  by (simp add: receivers_def connections_of_def)

lemma ws_join_eq:
  "ws_on_message s w (Join_room roomId userId) =
     broadcastToRoom
       (s\<lparr>roomConnections := AList.update roomId (set_add w (connections_of s roomId))
             (if map_of (roomConnections s) roomId = None
              then AList.update roomId [] (roomConnections s)
              else roomConnections s),
          userConnections := AList.update userId w (userConnections s)\<rparr>)
       roomId (user_joined userId)"
  by (auto simp add: ws_on_message_def connections_of_def Let_def update_conv'
           split: option.split)

lemma ws_join_connections_of:
  "connections_of (ws_on_message s w (Join_room roomId userId)) r =
     (if r = roomId then set_add w (connections_of s roomId) else connections_of s r)"
  by (simp add: ws_join_eq broadcastToRoom_eq) (simp add: connections_of_def update_conv')

lemma ws_join_userConnections:
  "userConnections (ws_on_message s w (Join_room roomId userId)) =
     AList.update userId w (userConnections s)"
  by (simp add: ws_join_eq broadcastToRoom_eq)

lemma ws_join_readyState:
  "readyState (ws_on_message s w (Join_room roomId userId)) = readyState s"
  by (simp add: ws_join_eq broadcastToRoom_eq)

lemma ws_join_sent:
  "sent (ws_on_message s w (Join_room roomId userId)) =
     sent s @ map (\<lambda>x. (x, JSON_stringify (user_joined userId)))
                  (filter (\<lambda>x. readyState s x = OPEN) (set_add w (connections_of s roomId)))"
  by (simp add: ws_join_eq broadcastToRoom_eq receivers_def)
     (simp add: connections_of_def update_conv')

lemma set_update_distinct:
  "distinct (map fst al) \<Longrightarrow>
     set (AList.update k v al) = insert (k, v) {x \<in> set al. fst x \<noteq> k}"
  by (induction al) (auto simp: rev_image_eqI)

lemma three_sockets_fields:
  "roomConnections three_sockets = [(''A'', [10, 20]), (''B'', [30])]"
  "readyState three_sockets 10 = OPEN"
  "readyState three_sockets 20 = CLOSING"
  "readyState three_sockets 30 = OPEN"
  "sent three_sockets = [(10, user_joined 7), (10, user_joined 8), (20, user_joined 8),
                         (30, user_joined 9)]"
  by code_simp+

lemma rebound_fields:
  "roomConnections rebound = [(''ABC123'', [10])]"
  "userConnections rebound = [(1, 10)]"
  "readyState rebound 10 = OPEN"
  "readyState rebound 11 = OPEN"
  "roomConnections (ws_on_message rebound 11 (Join_room ''ABC123'' 1)) = [(''ABC123'', [10, 11])]"
  "userConnections (ws_on_message rebound 11 (Join_room ''ABC123'' 1)) = [(1, 11)]"
  "readyState (ws_on_message rebound 11 (Join_room ''ABC123'' 1)) 10 = OPEN"
  "sent (ws_on_message rebound 11 (Join_room ''ABC123'' 1)) =
     [(10, user_joined 1), (10, user_joined 1), (11, user_joined 1)]"
  by code_simp+

subsection \<open>Rooms and the start of a game\<close>

lemma find_append_Some: "find P xs = Some x \<Longrightarrow> find P (xs @ ys) = Some x"
  by (induction xs) auto

lemma find_map_same_key:
  assumes "\<And>r. room_id (f r) = room_id r"
  shows "find (\<lambda>r. room_id r = i) (map (\<lambda>r. if room_id r = i then f r else r) xs) =
           map_option f (find (\<lambda>r. room_id r = i) xs)"
  by (induction xs) (auto simp: assms)

lemma getRoom_Some: "getRoom d i = Some r \<Longrightarrow> has_room d i \<and> room_id r = i"
  by (auto simp: getRoom_def has_room_def find_Some_iff)

lemma hd_concat_filter:
  "concat (map f (filter P qs)) \<noteq> [] \<Longrightarrow>
     \<exists>q. find (\<lambda>p. P p \<and> f p \<noteq> []) qs = Some q \<and>
         hd (concat (map f (filter P qs))) = hd (f q)"
proof (induction qs)
  case Nil
  then show ?case by simp
next
  case (Cons q qs)
  show ?case
  proof (cases "P q \<and> f q \<noteq> []")
    case True
    then show ?thesis by simp
  next
    case False
    then have eq: "concat (map f (filter P (q # qs))) = concat (map f (filter P qs))"
      by auto
    from False have feq: "find (\<lambda>p. P p \<and> f p \<noteq> []) (q # qs) =
        find (\<lambda>p. P p \<and> f p \<noteq> []) qs"
      by auto
    from Cons.prems have "concat (map f (filter P qs)) \<noteq> []"
      unfolding eq .
    from Cons.IH [OF this] show ?thesis
      unfolding eq feq .
  qed
qed

lemma first_player:
  assumes "player_rows d roomId \<noteq> []"
  shows "find (\<lambda>p. rp_roomId p = roomId \<and> has_user d (rp_userId p)) (roomPlayers d) =
           Some (fst (hd (player_rows d roomId)))"
proof -
  let ?f = "\<lambda>p. map (\<lambda>u. (p, u)) (filter (\<lambda>u. user_id u = rp_userId p) (users d))"
  have nonempty: "(filter (\<lambda>u. user_id u = rp_userId p) (users d) \<noteq> []) =
      has_user d (rp_userId p)" for p
    by (auto simp: has_user_def filter_empty_conv)
  from hd_concat_filter [of ?f "\<lambda>p. rp_roomId p = roomId" "roomPlayers d"] assms
  obtain q where q: "find (\<lambda>p. rp_roomId p = roomId \<and> ?f p \<noteq> []) (roomPlayers d) = Some q"
    and h: "hd (player_rows d roomId) = hd (?f q)"
    unfolding player_rows_def by blast
  from q have "?f q \<noteq> []" by (auto simp: find_Some_iff)
  then have "fst (hd (?f q)) = q" by (cases "filter (\<lambda>u. user_id u = rp_userId q) (users d)") auto
  with q h show ?thesis by (simp add: nonempty)
qed

lemma getRoomPlayers_ranked:
  "getRoomPlayers d roomId = sort_key (\<lambda>(p, u). roomPlayers_rank d p) (player_rows d roomId)"
  by (simp add: getRoomPlayers_def player_rows_def)

lemma getRoomPlayers_unranked:
  assumes "\<forall>p q. roomPlayers_rank d p = roomPlayers_rank d q"
  shows "getRoomPlayers d roomId = player_rows d roomId"
proof -
  from assms have "(\<lambda>(p, u). roomPlayers_rank d p) =
      (\<lambda>x :: room_player \<times> user. roomPlayers_rank d undefined)"
    by (auto simp: fun_eq_iff)
  then show ?thesis
    by (simp add: getRoomPlayers_ranked sort_key_const)
qed

lemma first_of_players:
  assumes "getRoomPlayers d roomId \<noteq> []"
  shows "fst (hd (getRoomPlayers d roomId)) \<in> set (roomPlayers d)
       \<and> rp_roomId (fst (hd (getRoomPlayers d roomId))) = roomId
       \<and> has_user d (rp_userId (fst (hd (getRoomPlayers d roomId))))"
proof -
  from assms have "hd (getRoomPlayers d roomId) \<in> set (getRoomPlayers d roomId)"
    by simp
  then have "hd (getRoomPlayers d roomId) \<in> set (player_rows d roomId)"
    by (simp add: getRoomPlayers_ranked)
  then show ?thesis
    by (auto simp: player_rows_def has_user_def)
qed

lemma start_updates:
  "apply_updates \<lparr>up_hostId = None, up_status = Some st, up_currentPlayerId = Some c,
                   up_currentRound = None, up_maxRounds = None\<rparr> r =
     r\<lparr>room_status := st, room_currentPlayerId := c\<rparr>"
  by (simp add: apply_updates_def)

lemma start_success:
  assumes room: "getRoom (db s) roomId = Some room"
      and host: "sb_hostId b = Some (room_hostId room)"
      and enough: "2 \<le> length (getRoomPlayers (db s) roomId)"
      and up: "\<not> faulty fl 0" "\<not> faulty fl 1" "\<not> faulty fl 2"
      and first: "first = rp_userId (fst (hd (getRoomPlayers (db s) roomId)))"
      and room': "room' = room\<lparr>room_status := ''playing'', room_currentPlayerId := Some first\<rparr>"
  shows "post_api_rooms_id_start fl s roomId b =
           (s\<lparr>db := (db s)\<lparr>rooms :=
                  map (\<lambda>r. if room_id r = roomId
                            then r\<lparr>room_status := ''playing'',
                                   room_currentPlayerId := Some first\<rparr>
                            else r) (rooms (db s))\<rparr>,
               sent := sent s @ map (\<lambda>w. (w, game_started first)) (receivers s roomId)\<rparr>,
            Response 200 (BRoom (Some room')))"
proof -
  have ne: "getRoomPlayers (db s) roomId \<noteq> []" using enough by auto
  from first_of_players [OF ne] have "has_user (db s) first"
    by (simp add: first)
  moreover have "has_room (db s) roomId" using getRoom_Some [OF room] by simp
  moreover have "find (\<lambda>r. room_id r = roomId)
      (map (\<lambda>r. if room_id r = roomId
                 then r\<lparr>room_status := ''playing'', room_currentPlayerId := Some first\<rparr>
                 else r) (rooms (db s))) = Some room'"
    using room by (simp add: find_map_same_key getRoom_def room')
  ultimately show ?thesis
    using room host enough up
    by (simp add: post_api_rooms_id_start_def query_def attempt_def faulty_def updateRoom_def
          updates_refer_to_users_def start_updates broadcastToRoom_eq
          JSON_stringify_def first [symmetric] Let_def cong: if_cong)
qed

lemma find_map_key:
  assumes "\<And>r. room_id (f r) = room_id r"
  shows "find (\<lambda>r. room_id r = i) (map (\<lambda>r. if room_id r = k then f r else r) xs) =
           map_option (\<lambda>r. if room_id r = k then f r else r) (find (\<lambda>r. room_id r = i) xs)"
  by (induction xs) (auto simp: assms)

lemma handle_registry:
  "roomConnections (fst (handle fl s req)) = roomConnections s \<and>
   userConnections (fst (handle fl s req)) = userConnections s \<and>
   readyState (fst (handle fl s req)) = readyState s"
  by (cases req)
     (auto simp: route_defs query_def attempt_def database_after_def broadcastToRoom_eq
           split: option.splits sum.splits prod.splits)

lemma getRoom_after_handle:
  assumes "getRoom (db s) i = Some r"
  shows "\<exists>r'. getRoom (db (fst (handle fl s req))) i = Some r' \<and>
           (r' = r \<or> (\<exists>c. r' = r\<lparr>room_status := ''playing'', room_currentPlayerId := Some c\<rparr>))"
proof (cases req)
  case (Post_users b)
  with assms show ?thesis
    by (auto simp: post_api_users_def query_def attempt_def database_after_def createUser_def getRoom_def Let_def
             split: option.splits sum.splits prod.splits if_splits)
next
  case (Get_user x)
  with assms show ?thesis
    by (auto simp: get_api_users_id_def split: option.splits sum.splits)
next
  case (Post_rooms b)
  with assms show ?thesis
    by (auto simp: post_api_rooms_def query_def attempt_def database_after_def createRoom_def joinRoom_def getRoom_def
                   Let_def find_append_Some
             split: option.splits sum.splits prod.splits if_splits)
next
  case (Get_room x)
  with assms show ?thesis
    by (auto simp: get_api_rooms_id_def split: option.splits sum.splits)
next
  case (Post_join x b)
  with assms show ?thesis
    by (auto simp: post_api_rooms_id_join_def query_def attempt_def database_after_def joinRoom_def getRoom_def Let_def
                   broadcastToRoom_eq
             split: option.splits sum.splits prod.splits if_splits)
next
  case (Post_start x b)
  with assms show ?thesis
    by (auto simp: post_api_rooms_id_start_def query_def attempt_def database_after_def updateRoom_def getRoom_def Let_def
                   broadcastToRoom_eq find_map_key start_updates
             split: option.splits sum.splits prod.splits if_splits cong: if_cong)
next
  case (Post_submissions b)
  with assms show ?thesis
    by (auto simp: post_api_submissions_def query_def attempt_def database_after_def createSubmission_def getRoom_def
                   Let_def broadcastToRoom_eq
             split: option.splits sum.splits prod.splits if_splits)
next
  case (Post_votes b)
  with assms show ?thesis
    by (auto simp: post_api_votes_def query_def attempt_def database_after_def createVote_def getRoom_def Let_def
             split: option.splits sum.splits prod.splits if_splits)
next
  case (Get_votes x)
  with assms show ?thesis
    by (auto simp: get_api_submissions_id_votes_def split: option.splits sum.splits)
qed

lemma db_ws_on_message [simp]: "db (ws_on_message s w m) = db s"
proof (cases m)
  case (Join_room roomId userId)
  then show ?thesis by (simp add: ws_join_eq broadcastToRoom_eq)
next
  case Other_message
  then show ?thesis by (simp add: ws_on_message_def)
qed

lemma db_ws_on_close [simp]: "db (ws_on_close s w) = db s"
  by (simp add: ws_on_close_def)

lemma getRoom_after_step:
  assumes "getRoom (db s) i = Some r"
  shows "\<exists>r'. getRoom (db (step s e)) i = Some r' \<and>
           (r' = r \<or> (\<exists>c. r' = r\<lparr>room_status := ''playing'', room_currentPlayerId := Some c\<rparr>))"
proof (cases e)
  case (Http fl req)
  with getRoom_after_handle [OF assms, of fl req] show ?thesis by simp
qed (use assms in \<open>simp_all add: getRoom_def\<close>)

lemma rooms_after_handle:
  assumes "r' \<in> set (rooms (db (fst (handle fl s req))))"
  shows "r' \<in> set (rooms (db s)) \<or> room_status r' = ''waiting'' \<or> room_status r' = ''playing''"
proof (cases req)
  case (Post_users b)
  with assms show ?thesis
    by (auto simp: post_api_users_def query_def attempt_def database_after_def createUser_def Let_def
             split: option.splits sum.splits prod.splits if_splits)
next
  case (Get_user x)
  with assms show ?thesis
    by (auto simp: get_api_users_id_def split: option.splits sum.splits)
next
  case (Post_rooms b)
  with assms show ?thesis
    by (auto simp: post_api_rooms_def query_def attempt_def database_after_def createRoom_def joinRoom_def Let_def
             split: option.splits sum.splits prod.splits if_splits)
next
  case (Get_room x)
  with assms show ?thesis
    by (auto simp: get_api_rooms_id_def split: option.splits sum.splits)
next
  case (Post_join x b)
  with assms show ?thesis
    by (auto simp: post_api_rooms_id_join_def query_def attempt_def database_after_def joinRoom_def Let_def
                   broadcastToRoom_eq
             split: option.splits sum.splits prod.splits if_splits)
next
  case (Post_start x b)
  with assms show ?thesis
    by (auto simp: post_api_rooms_id_start_def query_def attempt_def database_after_def updateRoom_def Let_def
                   broadcastToRoom_eq start_updates
             split: option.splits sum.splits prod.splits if_splits cong: if_cong)
next
  case (Post_submissions b)
  with assms show ?thesis
    by (auto simp: post_api_submissions_def query_def attempt_def database_after_def createSubmission_def
                   Let_def broadcastToRoom_eq
             split: option.splits sum.splits prod.splits if_splits)
next
  case (Post_votes b)
  with assms show ?thesis
    by (auto simp: post_api_votes_def query_def attempt_def database_after_def createVote_def Let_def
             split: option.splits sum.splits prod.splits if_splits)
next
  case (Get_votes x)
  with assms show ?thesis
    by (auto simp: get_api_submissions_id_votes_def split: option.splits sum.splits)
qed

lemma rooms_after_step:
  assumes "r' \<in> set (rooms (db (step s e)))"
  shows "r' \<in> set (rooms (db s)) \<or> room_status r' = ''waiting'' \<or> room_status r' = ''playing''"
proof (cases e)
  case (Http fl req)
  with rooms_after_handle [of r' fl s req] assms show ?thesis by simp
qed (use assms in simp_all)

lemma reachable_status:
  "r \<in> set (rooms (db (run init es))) \<Longrightarrow>
     room_status r = ''waiting'' \<or> room_status r = ''playing''"
proof (induction es arbitrary: r rule: rev_induct)
  case Nil
  then show ?case by (simp add: run_def init_def empty_database_def)
next
  case (snoc e es)
  from snoc.prems have "r \<in> set (rooms (db (step (run init es) e)))"
    by (simp add: run_def)
  from rooms_after_step [OF this] snoc.IH show ?case by blast
qed

lemma rank_after_handle:
  "roomPlayers_rank (db (fst (handle fl s req))) = roomPlayers_rank (db s)"
proof (cases req)
  case (Post_users b)
  then show ?thesis
    by (auto simp: post_api_users_def query_def attempt_def database_after_def createUser_def
                   Let_def
             split: option.splits sum.splits prod.splits if_splits)
next
  case (Get_user x)
  then show ?thesis
    by (auto simp: get_api_users_id_def split: option.splits sum.splits)
next
  case (Post_rooms b)
  then show ?thesis
    by (auto simp: post_api_rooms_def query_def attempt_def database_after_def createRoom_def
                   joinRoom_def Let_def
             split: option.splits sum.splits prod.splits if_splits)
next
  case (Get_room x)
  then show ?thesis
    by (auto simp: get_api_rooms_id_def split: option.splits sum.splits)
next
  case (Post_join x b)
  then show ?thesis
    by (auto simp: post_api_rooms_id_join_def query_def attempt_def database_after_def
                   joinRoom_def Let_def broadcastToRoom_eq
             split: option.splits sum.splits prod.splits if_splits)
next
  case (Post_start x b)
  then show ?thesis
    by (auto simp: post_api_rooms_id_start_def query_def attempt_def database_after_def
                   updateRoom_def Let_def broadcastToRoom_eq
             split: option.splits sum.splits prod.splits if_splits)
next
  case (Post_submissions b)
  then show ?thesis
    by (auto simp: post_api_submissions_def query_def attempt_def database_after_def
                   createSubmission_def Let_def broadcastToRoom_eq
             split: option.splits sum.splits prod.splits if_splits)
next
  case (Post_votes b)
  then show ?thesis
    by (auto simp: post_api_votes_def query_def attempt_def database_after_def createVote_def
                   Let_def
             split: option.splits sum.splits prod.splits if_splits)
next
  case (Get_votes x)
  then show ?thesis
    by (auto simp: get_api_submissions_id_votes_def split: option.splits sum.splits)
qed

lemma rank_after_step:
  assumes "\<And>rank. e \<noteq> Replan_players rank"
  shows "roomPlayers_rank (db (step s e)) = roomPlayers_rank (db s)"
proof (cases e)
  case (Http fl req)
  then show ?thesis by (simp add: rank_after_handle)
next
  case (Replan_players rank)
  with assms show ?thesis by blast
qed simp_all

lemma rank_after_run:
  assumes "\<And>e rank. e \<in> set es \<Longrightarrow> e \<noteq> Replan_players rank"
  shows "roomPlayers_rank (db (run s es)) = roomPlayers_rank (db s)"
  using assms
proof (induction es rule: rev_induct)
  case Nil
  show ?case by (simp add: run_def)
next
  case (snoc e es)
  have "roomPlayers_rank (db (step (run s es) e)) = roomPlayers_rank (db (run s es))"
    by (rule rank_after_step) (simp add: snoc.prems)
  with snoc show ?case by (simp add: run_def)
qed

lemma lobby_rank: "roomPlayers_rank (db lobby) p = 0"
proof -
  have "roomPlayers_rank (db lobby) = roomPlayers_rank (db init)"
    unfolding lobby_def by (rule rank_after_run) (auto simp: lobby_events_def)
  then show ?thesis by (simp add: init_def empty_database_def)
qed

lemma host_alone_fields:
  "getRoom (db host_alone) ''ABC123'' =
     Some \<lparr>room_id = ''ABC123'', room_hostId = 1, room_status = ''waiting'',
           room_currentPlayerId = None, room_currentRound = 1, room_maxRounds = 5\<rparr>"
  "length (getRoomPlayers (db host_alone) ''ABC123'') = 1"
  "has_user (db host_alone) 2"
  by code_simp+

lemma lobby_fields:
  "getRoom (db lobby) ''ABC123'' =
     Some \<lparr>room_id = ''ABC123'', room_hostId = 1, room_status = ''waiting'',
           room_currentPlayerId = None, room_currentRound = 1, room_maxRounds = 5\<rparr>"
  "length (getRoomPlayers (db lobby) ''ABC123'') = 2"
  "find (\<lambda>p. rp_roomId p = ''ABC123'' \<and> has_user (db lobby) (rp_userId p))
        (roomPlayers (db lobby)) =
     Some \<lparr>rp_id = 1, rp_roomId = ''ABC123'', rp_userId = 1, rp_score = 0\<rparr>"
  "roomConnections lobby = [(''ABC123'', [10, 20])]"
  "readyState lobby 10 = OPEN"
  "readyState lobby 20 = OPEN"
  by code_simp+

lemma playing_run: "playing = run init (lobby_events @ [Http [] start_by_host])"
  by (simp add: playing_def lobby_def run_def)

lemma playing_newest_first_run:
  "playing_newest_first =
     run init (lobby_events @ [Http [] start_by_host, Replan_players newest_first])"
  by (simp add: playing_newest_first_def playing_def lobby_def run_def)

lemma playing_fields:
  "getRoom (db playing) ''ABC123'' =
     Some \<lparr>room_id = ''ABC123'', room_hostId = 1, room_status = ''playing'',
           room_currentPlayerId = Some 1, room_currentRound = 1, room_maxRounds = 5\<rparr>"
  "length (getRoomPlayers (db playing) ''ABC123'') = 2"
  "has_user (db playing) 1"
  "has_submission (db playing) (gameSubmissions_id_seq (db playing) + 1) = False"
  "gameSubmissions (db playing) = []"
  "roomConnections playing = [(''ABC123'', [10, 20])]"
  "readyState playing 10 = OPEN"
  "readyState playing 20 = OPEN"
  by code_simp+

lemma playing_newest_first_fields:
  "getRoom (db playing_newest_first) ''ABC123'' =
     Some \<lparr>room_id = ''ABC123'', room_hostId = 1, room_status = ''playing'',
           room_currentPlayerId = Some 1, room_currentRound = 1, room_maxRounds = 5\<rparr>"
  "length (getRoomPlayers (db playing_newest_first) ''ABC123'') = 2"
  "fst (hd (getRoomPlayers (db playing_newest_first) ''ABC123'')) =
     \<lparr>rp_id = 2, rp_roomId = ''ABC123'', rp_userId = 2, rp_score = 0\<rparr>"
  "roomConnections playing_newest_first = [(''ABC123'', [10, 20])]"
  "readyState playing_newest_first 10 = OPEN"
  "readyState playing_newest_first 20 = OPEN"
  by code_simp+

subsection \<open>Submissions and votes\<close>

lemma submit_result:
  assumes "post_api_submissions fl s b = (s', Response 200 body)"
  shows "\<exists>d room row.
           insertGameSubmissionSchema b = Some d
         \<and> getRoom (db s) (is_roomId d) = Some room
         \<and> room_currentPlayerId room = Some (is_playerId d)
         \<and> row = \<lparr>sub_id = gameSubmissions_id_seq (db s) + 1, sub_roomId = is_roomId d,
                   sub_playerId = is_playerId d, sub_round = is_round d,
                   sub_phrase = is_phrase d, sub_actualType = is_actualType d\<rparr>
         \<and> body = BSubmission row
         \<and> s' = s\<lparr>db := (db s)\<lparr>gameSubmissions := gameSubmissions (db s) @ [row],
                                 gameSubmissions_id_seq := sub_id row\<rparr>,
                   sent := sent s @ map (\<lambda>w. (w, new_submission row))
                                        (receivers s (is_roomId d))\<rparr>"
  using assms
  by (auto simp: post_api_submissions_def query_def attempt_def database_after_def faulty_def createSubmission_def Let_def
                 broadcastToRoom_eq JSON_stringify_def error_defs
           split: option.splits sum.splits if_splits)

lemma submit_success:
  assumes "insertGameSubmissionSchema b = Some d"
      and "\<not> faulty fl 0" and "\<not> faulty fl 1"
      and "getRoom (db s) (is_roomId d) = Some room"
      and "room_currentPlayerId room = Some (is_playerId d)"
      and "has_user (db s) (is_playerId d)"
      and "\<not> has_submission (db s) (gameSubmissions_id_seq (db s) + 1)"
      and "row = \<lparr>sub_id = gameSubmissions_id_seq (db s) + 1, sub_roomId = is_roomId d,
                  sub_playerId = is_playerId d, sub_round = is_round d,
                  sub_phrase = is_phrase d, sub_actualType = is_actualType d\<rparr>"
  shows "post_api_submissions fl s b =
           (s\<lparr>db := (db s)\<lparr>gameSubmissions := gameSubmissions (db s) @ [row],
                             gameSubmissions_id_seq := sub_id row\<rparr>,
               sent := sent s @ map (\<lambda>w. (w, new_submission row))
                                    (receivers s (is_roomId d))\<rparr>,
            Response 200 (BSubmission row))"
  using assms getRoom_Some [OF assms(4)]
  by (simp add: post_api_submissions_def query_def attempt_def database_after_def faulty_def createSubmission_def Let_def
                broadcastToRoom_eq JSON_stringify_def)

lemma submit_sent_ignores_type:
  assumes "insertGameSubmissionSchema b = Some d"
  shows "sent (fst (post_api_submissions fl s (b\<lparr>gb_actualType := Some t\<rparr>))) =
         sent (fst (post_api_submissions fl s b))"
proof -
  have p: "insertGameSubmissionSchema (b\<lparr>gb_actualType := Some t\<rparr>) =
             Some (d\<lparr>is_actualType := t\<rparr>)"
    using assms
    by (auto simp: insertGameSubmissionSchema_def split: option.splits)
  show ?thesis
    by (auto simp: post_api_submissions_def p assms query_def attempt_def database_after_def faulty_def createSubmission_def Let_def
                   broadcastToRoom_eq new_submission_def
             split: option.splits sum.splits)
qed

lemma karaoke_parsed:
  "insertGameSubmissionSchema karaoke =
     Some \<lparr>is_roomId = ''ABC123'', is_playerId = 1, is_round = 1,
           is_phrase = ''I once sang karaoke badly'', is_actualType = ''truth''\<rparr>"
  "insertGameSubmissionSchema karaoke_by_bob =
     Some \<lparr>is_roomId = ''ABC123'', is_playerId = 2, is_round = 1,
           is_phrase = ''I once sang karaoke badly'', is_actualType = ''truth''\<rparr>"
  by (simp_all add: insertGameSubmissionSchema_def karaoke_def karaoke_by_bob_def)

lemma karaoke_posted:
  "snd (post_api_submissions [] playing karaoke) =
     Response 200 (BSubmission \<lparr>sub_id = 1, sub_roomId = ''ABC123'', sub_playerId = 1,
        sub_round = 1, sub_phrase = ''I once sang karaoke badly'', sub_actualType = ''truth''\<rparr>)"
  by code_simp

lemma voting_fields:
  "getRoom (db voting) ''ABC123'' =
     Some \<lparr>room_id = ''ABC123'', room_hostId = 1, room_status = ''playing'',
           room_currentPlayerId = Some 1, room_currentRound = 1, room_maxRounds = 5\<rparr>"
  "has_user (db voting) 1"
  "has_submission (db voting) (gameSubmissions_id_seq (db voting) + 1) = False"
  "gameSubmissions (db voting) =
     [\<lparr>sub_id = 1, sub_roomId = ''ABC123'', sub_playerId = 1, sub_round = 1,
       sub_phrase = ''I once sang karaoke badly'', sub_actualType = ''truth''\<rparr>]"
  "gameVotes (db voting) = []"
  by code_simp+

lemma hasUserVoted_iff:
  "hasUserVoted d x v =
     (\<exists>r \<in> set (gameVotes d). vote_submissionId r = x \<and> vote_voterId r = v)"
proof -
  have "(0 < length (take 1 xs)) = (xs \<noteq> [])" for xs :: "game_vote list"
    by (cases xs) auto
  then show ?thesis
    by (auto simp: hasUserVoted_def filter_empty_conv)
qed

lemma vote_result:
  assumes "post_api_votes fl s b = (s', Response 200 body)"
  shows "\<exists>d row.
           insertGameVoteSchema b = Some d
         \<and> \<not> hasUserVoted (db s) (iv_submissionId d) (iv_voterId d)
         \<and> has_submission (db s) (iv_submissionId d)
         \<and> row = \<lparr>vote_id = gameVotes_id_seq (db s) + 1,
                   vote_submissionId = iv_submissionId d, vote_voterId = iv_voterId d,
                   vote_guessedType = iv_guessedType d, vote_isCorrect = iv_isCorrect d\<rparr>
         \<and> body = BVote row
         \<and> s' = s\<lparr>db := (db s)\<lparr>gameVotes := gameVotes (db s) @ [row],
                                 gameVotes_id_seq := vote_id row\<rparr>\<rparr>"
  using assms
  by (auto simp: post_api_votes_def query_def attempt_def database_after_def faulty_def createVote_def Let_def error_defs
           split: option.splits sum.splits if_splits)

lemma votes_after:
  "gameVotes (db (fst (post_api_votes fl s b))) = gameVotes (db s)
   \<or> (\<exists>d row. insertGameVoteSchema b = Some d
         \<and> \<not> hasUserVoted (db s) (iv_submissionId d) (iv_voterId d)
         \<and> vote_submissionId row = iv_submissionId d \<and> vote_voterId row = iv_voterId d
         \<and> gameVotes (db (fst (post_api_votes fl s b))) = gameVotes (db s) @ [row])"
  by (auto simp: post_api_votes_def query_def attempt_def database_after_def createVote_def
                 Let_def error_defs
           split: option.splits sum.splits if_splits)

lemma vote_parsed:
  "insertGameVoteSchema b = Some d \<Longrightarrow>
     vb_submissionId b = Some (iv_submissionId d) \<and> vb_voterId b = Some (iv_voterId d) \<and>
     vb_guessedType b = Some (iv_guessedType d) \<and> vb_isCorrect b = Some (iv_isCorrect d)"
  by (auto simp: insertGameVoteSchema_def split: option.splits)

lemma vote_by_bob_parsed:
  "insertGameVoteSchema vote_by_bob =
     Some \<lparr>iv_submissionId = 1, iv_voterId = 2, iv_guessedType = ''meme'',
           iv_isCorrect = True\<rparr>"
  by (simp add: insertGameVoteSchema_def vote_by_bob_def)

lemma vote_by_bob_posted:
  "snd (post_api_votes [] voting vote_by_bob) =
     Response 200 (BVote \<lparr>vote_id = 1, vote_submissionId = 1, vote_voterId = 2,
                          vote_guessedType = ''meme'', vote_isCorrect = True\<rparr>)"
  by code_simp

lemma voted_fields:
  "gameVotes (db voted) =
     [\<lparr>vote_id = 1, vote_submissionId = 1, vote_voterId = 2, vote_guessedType = ''meme'',
       vote_isCorrect = True\<rparr>]"
  by code_simp

subsection \<open>Failed requests\<close>

lemma outcome_of_Nil: "outcome_of [] i = Answered"
  by (simp add: outcome_of_def)

lemma lost_in_list: "outcome_of fl i = Lost_response \<Longrightarrow> Lost_response \<in> set fl"
  by (auto simp: outcome_of_def split: if_splits dest: nth_mem)

lemma attempt_cases:
  "attempt out d r =
     (case out of Answered \<Rightarrow> r | Lost_request \<Rightarrow> Inl (Unavailable, d)
      | Lost_response \<Rightarrow> Inl (Unavailable, database_after r))"
  by (cases out) (simp_all add: attempt_def)

lemma query_cases:
  "query out r = (case out of Answered \<Rightarrow> r | Lost_request \<Rightarrow> Inl Unavailable
                  | Lost_response \<Rightarrow> Inl Unavailable)"
  by (cases out) (simp_all add: query_def)

lemma same_rows_refl: "same_rows d d"
  by (simp add: same_rows_def)

lemma error_sends_nothing:
  assumes "handle fl s req = (s', Response code body)" and "code \<noteq> 200"
  shows "sent s' = sent s"
  using assms
  by (cases req)
     (auto simp: route_defs query_cases attempt_cases database_after_def broadcastToRoom_eq
                 error_defs
           split: option.splits sum.splits prod.splits if_splits outcome.splits)

lemma users_error:
  assumes "post_api_users fl s b = (s', Response code body)" and "code \<noteq> 200"
  shows "same_rows (db s) (db s')
       \<or> Lost_response \<in> set fl
         \<and> (\<exists>ok. snd (post_api_users [] s b) = Response 200 ok)
         \<and> same_rows (db (fst (post_api_users [] s b))) (db s')"
  using assms
  by (auto simp: post_api_users_def query_cases attempt_cases database_after_def
                 createUser_def Let_def same_rows_def outcome_of_Nil
           split: option.splits sum.splits prod.splits if_splits outcome.splits
           intro: lost_in_list)

lemma join_error:
  assumes "post_api_rooms_id_join fl s i b = (s', Response code body)" and "code \<noteq> 200"
  shows "same_rows (db s) (db s')
       \<or> Lost_response \<in> set fl
         \<and> (\<exists>ok. snd (post_api_rooms_id_join [] s i b) = Response 200 ok)
         \<and> same_rows (db (fst (post_api_rooms_id_join [] s i b))) (db s')"
  using assms
  by (auto simp: post_api_rooms_id_join_def query_cases attempt_cases database_after_def
                 joinRoom_def Let_def same_rows_def outcome_of_Nil broadcastToRoom_eq
                 error_defs
           split: option.splits sum.splits prod.splits if_splits outcome.splits
           intro: lost_in_list)

lemma start_error:
  assumes "post_api_rooms_id_start fl s i b = (s', Response code body)" and "code \<noteq> 200"
  shows "same_rows (db s) (db s')
       \<or> Lost_response \<in> set fl
         \<and> (\<exists>ok. snd (post_api_rooms_id_start [] s i b) = Response 200 ok)
         \<and> same_rows (db (fst (post_api_rooms_id_start [] s i b))) (db s')"
  using assms
  by (auto simp: post_api_rooms_id_start_def query_cases attempt_cases database_after_def
                 updateRoom_def Let_def same_rows_def outcome_of_Nil broadcastToRoom_eq
                 error_defs
           split: option.splits sum.splits prod.splits if_splits outcome.splits
           intro: lost_in_list)

lemma submit_error:
  assumes "post_api_submissions fl s b = (s', Response code body)" and "code \<noteq> 200"
  shows "same_rows (db s) (db s')
       \<or> Lost_response \<in> set fl
         \<and> (\<exists>ok. snd (post_api_submissions [] s b) = Response 200 ok)
         \<and> same_rows (db (fst (post_api_submissions [] s b))) (db s')"
  using assms
  by (auto simp: post_api_submissions_def query_cases attempt_cases database_after_def
                 createSubmission_def Let_def same_rows_def outcome_of_Nil broadcastToRoom_eq
                 error_defs
           split: option.splits sum.splits prod.splits if_splits outcome.splits
           intro: lost_in_list)

lemma vote_error:
  assumes "post_api_votes fl s b = (s', Response code body)" and "code \<noteq> 200"
  shows "same_rows (db s) (db s')
       \<or> Lost_response \<in> set fl
         \<and> (\<exists>ok. snd (post_api_votes [] s b) = Response 200 ok)
         \<and> same_rows (db (fst (post_api_votes [] s b))) (db s')"
  using assms
  by (auto simp: post_api_votes_def query_cases attempt_cases database_after_def
                 createVote_def Let_def same_rows_def outcome_of_Nil error_defs
           split: option.splits sum.splits prod.splits if_splits outcome.splits
           intro: lost_in_list)

lemma other_route_error:
  assumes "handle fl s req = (s', Response code body)" and "code \<noteq> 200"
      and "\<And>b. req \<noteq> Post_rooms b"
  shows "same_rows (db s) (db s')
       \<or> Lost_response \<in> set fl
         \<and> (\<exists>ok. snd (handle [] s req) = Response 200 ok)
         \<and> same_rows (db (fst (handle [] s req))) (db s')"
proof (cases req)
  case (Post_users b)
  with assms users_error [of fl s b s' code body] show ?thesis by simp
next
  case (Get_user x)
  with assms show ?thesis
    by (auto simp: get_api_users_id_def same_rows_def split: option.splits sum.splits)
next
  case (Post_rooms b)
  with assms(3) show ?thesis by blast
next
  case (Get_room x)
  with assms show ?thesis
    by (auto simp: get_api_rooms_id_def same_rows_def split: option.splits sum.splits)
next
  case (Post_join x b)
  with assms join_error [of fl s x b s' code body] show ?thesis by simp
next
  case (Post_start x b)
  with assms start_error [of fl s x b s' code body] show ?thesis by simp
next
  case (Post_submissions b)
  with assms submit_error [of fl s b s' code body] show ?thesis by simp
next
  case (Post_votes b)
  with assms vote_error [of fl s b s' code body] show ?thesis by simp
next
  case (Get_votes x)
  with assms show ?thesis
    by (auto simp: get_api_submissions_id_votes_def same_rows_def
             split: option.splits sum.splits)
qed

lemma create_room_invalid:
  assumes "post_api_rooms fl s b = (s', Response code body)"
      and "insertRoomSchema b = None \<or> falsy (rb_hostId b)"
  shows "s' = s"
  using assms
  by (auto simp: post_api_rooms_def split: option.splits)

lemma create_room_rejected:
  assumes "post_api_rooms fl s b = (s', Response code body)"
      and "insertRoomSchema b = Some roomData" and "rb_hostId b = Some hostId"
      and "hostId \<noteq> 0"
      and "outcome_of fl 0 = Lost_request
           \<or> (\<exists>e d0. createRoom (db s) roomData hostId = Inl (e, d0))"
  shows "s' = s"
proof -
  have same: "d0 = db s" if "createRoom (db s) roomData hostId = Inl (e, d0)" for e d0
    using that by (auto simp: createRoom_def Let_def split: if_splits)
  from assms(5) show ?thesis
  proof
    assume "outcome_of fl 0 = Lost_request"
    with assms(1-4) show ?thesis
      by (simp add: post_api_rooms_def falsy_def attempt_cases)
  next
    assume "\<exists>e d0. createRoom (db s) roomData hostId = Inl (e, d0)"
    then obtain e d0 where c: "createRoom (db s) roomData hostId = Inl (e, d0)" by blast
    from same [OF c] c have "createRoom (db s) roomData hostId = Inl (e, db s)" by simp
    with assms(1-4) show ?thesis
      by (cases "outcome_of fl 0")
         (auto simp: post_api_rooms_def falsy_def attempt_cases database_after_def)
  qed
qed

lemma create_room_half:
  assumes "post_api_rooms fl s b = (s', Response code body)" and "code \<noteq> 200"
      and "insertRoomSchema b = Some roomData" and "rb_hostId b = Some hostId"
      and "hostId \<noteq> 0"
      and "outcome_of fl 0 \<noteq> Lost_request"
      and "createRoom (db s) roomData hostId = Inr (room, d1)"
  shows "room = \<lparr>room_id = ir_id roomData, room_hostId = hostId, room_status = ''waiting'',
                 room_currentPlayerId = None, room_currentRound = 1,
                 room_maxRounds = (case ir_maxRounds roomData of None \<Rightarrow> 5 | Some m \<Rightarrow> m)\<rparr>
       \<and> rooms (db s') = rooms (db s) @ [room]
       \<and> users (db s') = users (db s)
       \<and> gameSubmissions (db s') = gameSubmissions (db s)
       \<and> gameVotes (db s') = gameVotes (db s)
       \<and> code = 400 \<and> body = BError ''Invalid room data''
       \<and> (outcome_of fl 0 = Lost_response \<or> outcome_of fl 1 \<noteq> Lost_response \<longrightarrow>
            roomPlayers (db s') = roomPlayers (db s))
       \<and> (outcome_of fl 0 = Answered \<longrightarrow>
            outcome_of fl 1 \<noteq> Answered
            \<or> (\<exists>e d2. joinRoom d1 \<lparr>irp_roomId = room_id room, irp_userId = hostId\<rparr> =
                        Inl (e, d2)))"
proof -
  from assms(7) have c: "d1 = (db s)\<lparr>rooms := rooms (db s) @ [room]\<rparr>"
    "room = \<lparr>room_id = ir_id roomData, room_hostId = hostId, room_status = ''waiting'',
             room_currentPlayerId = None, room_currentRound = 1,
             room_maxRounds = (case ir_maxRounds roomData of None \<Rightarrow> 5 | Some m \<Rightarrow> m)\<rparr>"
    by (auto simp: createRoom_def Let_def split: if_splits)
  have j: "rooms d2 = rooms d1 \<and> users d2 = users d1
         \<and> gameSubmissions d2 = gameSubmissions d1 \<and> gameVotes d2 = gameVotes d1
         \<and> roomPlayers d2 = roomPlayers d1"
    if "joinRoom d1 p = Inl (e, d2)" for p e d2
    using that by (auto simp: joinRoom_def Let_def split: if_splits)
  have k: "rooms d2 = rooms d1 \<and> users d2 = users d1
         \<and> gameSubmissions d2 = gameSubmissions d1 \<and> gameVotes d2 = gameVotes d1"
    if "joinRoom d1 p = Inr (x, d2)" for p x d2
    using that by (auto simp: joinRoom_def Let_def split: if_splits)
  from assms(1-6) show ?thesis
    unfolding post_api_rooms_def
    by (auto simp: falsy_def attempt_cases database_after_def assms(7) c(2) [symmetric]
             split: outcome.splits sum.splits prod.splits
             dest!: j k)
       (simp_all add: c(1))
qed

lemma create_room_result:
  assumes "post_api_rooms fl s b = (s', Response 200 body)"
  shows "\<exists>roomData hostId room d1 player d2.
           insertRoomSchema b = Some roomData \<and> rb_hostId b = Some hostId
         \<and> createRoom (db s) roomData hostId = Inr (room, d1)
         \<and> joinRoom d1 \<lparr>irp_roomId = room_id room, irp_userId = hostId\<rparr> = Inr (player, d2)
         \<and> body = BRoom (Some room) \<and> s' = s\<lparr>db := d2\<rparr>"
  using assms
  by (auto simp: post_api_rooms_def attempt_cases
           split: option.splits sum.splits if_splits outcome.splits)

lemma lobby_rows:
  "has_room (db lobby) ''ABC123''"
  "roomPlayers_id_seq (db lobby) = 2"
  "length (roomPlayers (db lobby)) = 2"
  by code_simp+

lemma two_users_rows:
  "rooms (db two_users) = []"
  "roomPlayers (db two_users) = []"
  "has_user (db two_users) 1"
  by code_simp+

lemma failed_requests_posted:
  "snd (handle [] lobby (Post_join ''ABC123'' join_by_stranger)) =
     Response 400 (BError ''Failed to join room'')"
  "roomPlayers_id_seq (db (fst (handle [] lobby (Post_join ''ABC123'' join_by_stranger)))) = 3"
  "snd (handle [] lobby (Post_rooms create_abc)) = Response 400 (BError ''Invalid room data'')"
  "snd (handle [Answered, Lost_request] two_users (Post_rooms create_abc)) =
     Response 400 (BError ''Invalid room data'')"
  by code_simp+

subsection \<open>The registry in reachable states\<close>

lemma delete_first_bound_subset: "set (delete_first_bound w m) \<subseteq> set m"
  by (induction m) (auto split: if_splits)

lemma delete_first_bound_distinct:
  "distinct (map fst m) \<Longrightarrow> distinct (map fst (delete_first_bound w m))"
proof (induction m)
  case Nil
  then show ?case by simp
next
  case (Cons x m)
  obtain u c where x: "x = (u, c)" by (cases x)
  from Cons delete_first_bound_subset [of w m] show ?case
    by (auto simp: x)
qed

lemma keys_after_close:
  assumes "distinct (map fst rc)"
  shows "distinct (map fst (filter (\<lambda>(roomId, connections). connections \<noteq> [])
                               (map (\<lambda>(roomId, connections). (roomId, removeAll w connections))
                                    rc)))"
proof -
  have "map fst (map (\<lambda>(roomId, connections). (roomId, removeAll w connections)) rc) =
          map fst rc"
    by (induction rc) auto
  with assms
  have "distinct (map fst (map (\<lambda>(roomId, connections). (roomId, removeAll w connections)) rc))"
    by (simp only:)
  then show ?thesis
    by (rule distinct_map_filter)
qed

lemma registry_keys_step:
  assumes "distinct (map fst (userConnections s)) \<and> distinct (map fst (roomConnections s))"
  shows "distinct (map fst (userConnections (step s e))) \<and>
         distinct (map fst (roomConnections (step s e)))"
proof (cases e)
  case (Http fl req)
  with assms handle_registry [of fl s req] show ?thesis by simp
next
  case (Ws_connection w)
  with assms show ?thesis by simp
next
  case (Ws_message w m)
  show ?thesis
  proof (cases m)
    case (Join_room roomId userId)
    with assms Ws_message show ?thesis
      by (simp add: ws_join_eq broadcastToRoom_eq distinct_update)
  next
    case Other_message
    with assms Ws_message show ?thesis by (simp add: ws_on_message_def)
  qed
next
  case (Ws_closing w)
  with assms show ?thesis by simp
next
  case (Ws_close w)
  with assms show ?thesis
    by (simp add: ws_on_close_def delete_first_bound_distinct keys_after_close)
next
  case (Replan_players rank)
  with assms show ?thesis by simp
next
  case (Replan_votes rank)
  with assms show ?thesis by simp
qed

section \<open>The claims of the specification\<close>

text \<open>
  C1, as the code has it. \<^verbatim>\<open>isCorrect\<close> is a field of the insert schema: the request
  must carry it, and the stored vote holds the request's \<^verbatim>\<open>submissionId\<close>, \<^verbatim>\<open>voterId\<close>,
  \<^verbatim>\<open>guessedType\<close> and \<^verbatim>\<open>isCorrect\<close> as they came. The route reads no submission: the
  response is the same whatever \<^verbatim>\<open>actualType\<close> the stored submissions have.
\<close>

theorem stored_vote_takes_callers_flag:
  assumes "post_api_votes fl s b = (s', Response 200 body)"
  shows "(\<exists>vote. body = BVote vote
            \<and> gameVotes (db s') = gameVotes (db s) @ [vote]
            \<and> has_submission (db s) (vote_submissionId vote)
            \<and> vb_submissionId b = Some (vote_submissionId vote)
            \<and> vb_voterId b = Some (vote_voterId vote)
            \<and> vb_guessedType b = Some (vote_guessedType vote)
            \<and> vb_isCorrect b = Some (vote_isCorrect vote))
       \<and> snd (post_api_votes fl
                (s\<lparr>db := (db s)\<lparr>gameSubmissions :=
                       map (\<lambda>x. x\<lparr>sub_actualType := t\<rparr>) (gameSubmissions (db s))\<rparr>\<rparr>) b) =
           Response 200 body"
proof
  from vote_result [OF assms] obtain d row where
    d: "insertGameVoteSchema b = Some d"
    and new: "\<not> hasUserVoted (db s) (iv_submissionId d) (iv_voterId d)"
    and sub: "has_submission (db s) (iv_submissionId d)"
    and row: "row = \<lparr>vote_id = gameVotes_id_seq (db s) + 1,
                   vote_submissionId = iv_submissionId d, vote_voterId = iv_voterId d,
                   vote_guessedType = iv_guessedType d, vote_isCorrect = iv_isCorrect d\<rparr>"
    and body: "body = BVote row"
    and s': "s' = s\<lparr>db := (db s)\<lparr>gameVotes := gameVotes (db s) @ [row],
                                 gameVotes_id_seq := vote_id row\<rparr>\<rparr>"
    by blast
  from vote_parsed [OF d] sub
  show "\<exists>vote. body = BVote vote
            \<and> gameVotes (db s') = gameVotes (db s) @ [vote]
            \<and> has_submission (db s) (vote_submissionId vote)
            \<and> vb_submissionId b = Some (vote_submissionId vote)
            \<and> vb_voterId b = Some (vote_voterId vote)
            \<and> vb_guessedType b = Some (vote_guessedType vote)
            \<and> vb_isCorrect b = Some (vote_isCorrect vote)"
    by (simp add: body s' row)
  have same: "has_submission
      ((db s)\<lparr>gameSubmissions :=
           map (\<lambda>x. x\<lparr>sub_actualType := t\<rparr>) (gameSubmissions (db s))\<rparr>) i =
      has_submission (db s) i" for i
    by (auto simp: has_submission_def)
  from assms show "snd (post_api_votes fl
                (s\<lparr>db := (db s)\<lparr>gameSubmissions :=
                       map (\<lambda>x. x\<lparr>sub_actualType := t\<rparr>) (gameSubmissions (db s))\<rparr>\<rparr>) b) =
           Response 200 body"
    by (auto simp: post_api_votes_def query_def attempt_def database_after_def faulty_def createVote_def Let_def same
                   hasUserVoted_def has_user_def error_defs
             split: option.splits sum.splits if_splits)
qed

theorem stored_vote_takes_callers_flag_witness:
  "\<exists>vote. snd (post_api_votes [] voting vote_by_bob) = Response 200 (BVote vote)
     \<and> gameVotes (db (fst (post_api_votes [] voting vote_by_bob))) = [vote]
     \<and> vb_isCorrect vote_by_bob = Some (vote_isCorrect vote)"
proof -
  define s' where "s' = fst (post_api_votes [] voting vote_by_bob)"
  define body where "body = BVote \<lparr>vote_id = 1, vote_submissionId = 1, vote_voterId = 2,
                          vote_guessedType = ''meme'', vote_isCorrect = True\<rparr>"
  have ok: "post_api_votes [] voting vote_by_bob = (s', Response 200 body)"
    using vote_by_bob_posted by (simp add: s'_def body_def prod_eq_iff)
  from stored_vote_takes_callers_flag [OF ok, THEN conjunct1]
  obtain vote where v: "body = BVote vote"
    "gameVotes (db s') = gameVotes (db voting) @ [vote]"
    "vb_isCorrect vote_by_bob = Some (vote_isCorrect vote)"
    by blast
  have "snd (post_api_votes [] voting vote_by_bob) = Response 200 (BVote vote)"
    using vote_by_bob_posted v(1) by (simp add: body_def)
  moreover have "gameVotes (db (fst (post_api_votes [] voting vote_by_bob))) = [vote]"
    using v(2) by (simp add: s'_def [symmetric] voting_fields)
  ultimately show ?thesis
    using v(3) by blast
qed

text \<open>
  C1 as stated fails: the stored submission 1 is a truth; user 2 guesses ``meme'' and
  sends \<^verbatim>\<open>isCorrect: true\<close>. The vote is stored with \<^verbatim>\<open>isCorrect\<close> true, while the guess
  differs from the submission's \<^verbatim>\<open>actualType\<close>.
\<close>

theorem wrong_guess_stored_as_correct:
  "gameSubmissions (db voting) =
     [\<lparr>sub_id = 1, sub_roomId = ''ABC123'', sub_playerId = 1, sub_round = 1,
       sub_phrase = ''I once sang karaoke badly'', sub_actualType = ''truth''\<rparr>]
   \<and> snd (post_api_votes [] voting vote_by_bob) =
       Response 200 (BVote \<lparr>vote_id = 1, vote_submissionId = 1, vote_voterId = 2,
                            vote_guessedType = ''meme'', vote_isCorrect = True\<rparr>)
   \<and> gameVotes (db (fst (post_api_votes [] voting vote_by_bob))) =
       [\<lparr>vote_id = 1, vote_submissionId = 1, vote_voterId = 2, vote_guessedType = ''meme'',
         vote_isCorrect = True\<rparr>]
   \<and> True \<noteq> (''meme'' = ''truth'')"
proof -
  have "''meme'' \<noteq> ''truth''" by simp
  moreover have "gameVotes (db (fst (post_api_votes [] voting vote_by_bob))) =
       [\<lparr>vote_id = 1, vote_submissionId = 1, vote_voterId = 2, vote_guessedType = ''meme'',
         vote_isCorrect = True\<rparr>]"
    by code_simp
  ultimately show ?thesis
    using voting_fields(4) vote_by_bob_posted by simp
qed

text \<open>
  C2, as the code has it. Rooms are created \<open>waiting\<close> and the one write of a status
  sets \<open>playing\<close>: in every state the server can reach a room is waiting or playing, and
  one more event leaves its status as it is or takes it from waiting to playing, never
  back. The start route does not look at the status: on a room that is already playing,
  called by the host with at least two player rows returned and the storage answering,
  it runs in full again. The response is 200 with the room; the room is stored with
  status \<open>playing\<close> and with the user of the first player row returned as current player,
  in place of the current player stored before; and the object with \<^verbatim>\<open>type\<close>
  ``game_started'' and that user id as \<^verbatim>\<open>currentPlayerId\<close> is sent to the open sockets
  of the room. Nothing else in the state changes.
\<close>

theorem status_only_moves_to_playing:
  assumes "getRoom (db (run init es)) roomId = Some room"
  shows "(room_status room = ''waiting'' \<or> room_status room = ''playing'')
       \<and> (\<exists>room'. getRoom (db (step (run init es) e)) roomId = Some room'
              \<and> (room_status room' = room_status room
                   \<or> room_status room = ''waiting'' \<and> room_status room' = ''playing''))
       \<and> (room_status room = ''playing'' \<and> sb_hostId b = Some (room_hostId room)
            \<and> 2 \<le> length (getRoomPlayers (db (run init es)) roomId)
            \<and> \<not> faulty fl 0 \<and> \<not> faulty fl 1 \<and> \<not> faulty fl 2 \<longrightarrow>
            post_api_rooms_id_start fl (run init es) roomId b =
              ((run init es)\<lparr>db := (db (run init es))\<lparr>rooms :=
                   map (\<lambda>r. if room_id r = roomId
                             then r\<lparr>room_status := ''playing'',
                                    room_currentPlayerId := Some (rp_userId
                                      (fst (hd (getRoomPlayers (db (run init es)) roomId))))\<rparr>
                             else r) (rooms (db (run init es)))\<rparr>,
                 sent := sent (run init es) @
                   map (\<lambda>w. (w, JSON_stringify
                          (JObj [(''type'', JStr ''game_started''),
                                 (''currentPlayerId'', JNum (rp_userId
                                    (fst (hd (getRoomPlayers (db (run init es)) roomId)))))])))
                       (filter (\<lambda>w. readyState (run init es) w = OPEN)
                               (connections_of (run init es) roomId))\<rparr>,
               Response 200 (BRoom (Some (room\<lparr>room_currentPlayerId := Some (rp_userId
                    (fst (hd (getRoomPlayers (db (run init es)) roomId))))\<rparr>))))
          \<and> getRoom (db (fst (post_api_rooms_id_start fl (run init es) roomId b))) roomId =
              Some (room\<lparr>room_currentPlayerId := Some (rp_userId
                    (fst (hd (getRoomPlayers (db (run init es)) roomId))))\<rparr>)
          \<and> room_status (room\<lparr>room_currentPlayerId := Some (rp_userId
                    (fst (hd (getRoomPlayers (db (run init es)) roomId))))\<rparr>) = ''playing'')"
proof -
  define s where "s = run init es"
  define first where "first = rp_userId (fst (hd (getRoomPlayers (db s) roomId)))"
  have room: "getRoom (db s) roomId = Some room"
    using assms by (simp add: s_def)
  have "room \<in> set (rooms (db s))"
    using room by (auto simp: getRoom_def find_Some_iff)
  then have ok: "room_status room = ''waiting'' \<or> room_status room = ''playing''"
    unfolding s_def by (rule reachable_status)
  from getRoom_after_step [of s roomId room e] room
  obtain room' where r': "getRoom (db (step s e)) roomId = Some room'"
    and "room' = room \<or>
         (\<exists>c. room' = room\<lparr>room_status := ''playing'', room_currentPlayerId := Some c\<rparr>)"
    by auto
  then have "room_status room' = room_status room \<or> room_status room' = ''playing''"
    by auto
  with ok have "room_status room' = room_status room
      \<or> room_status room = ''waiting'' \<and> room_status room' = ''playing''"
    by auto
  with r' have move: "\<exists>room'. getRoom (db (step s e)) roomId = Some room'
              \<and> (room_status room' = room_status room
                   \<or> room_status room = ''waiting'' \<and> room_status room' = ''playing'')"
    by blast
  have again:
    "post_api_rooms_id_start fl s roomId b =
       (s\<lparr>db := (db s)\<lparr>rooms :=
             map (\<lambda>r. if room_id r = roomId
                       then r\<lparr>room_status := ''playing'', room_currentPlayerId := Some first\<rparr>
                       else r) (rooms (db s))\<rparr>,
          sent := sent s @
             map (\<lambda>w. (w, JSON_stringify
                    (JObj [(''type'', JStr ''game_started''),
                           (''currentPlayerId'', JNum first)])))
                 (filter (\<lambda>w. readyState s w = OPEN) (connections_of s roomId))\<rparr>,
        Response 200 (BRoom (Some (room\<lparr>room_currentPlayerId := Some first\<rparr>))))
     \<and> getRoom (db (fst (post_api_rooms_id_start fl s roomId b))) roomId =
         Some (room\<lparr>room_currentPlayerId := Some first\<rparr>)
     \<and> room_status (room\<lparr>room_currentPlayerId := Some first\<rparr>) = ''playing''"
    if playing: "room_status room = ''playing''"
      and host: "sb_hostId b = Some (room_hostId room)"
      and enough: "2 \<le> length (getRoomPlayers (db s) roomId)"
      and up: "\<not> faulty fl 0" "\<not> faulty fl 1" "\<not> faulty fl 2"
  proof -
    have same: "room\<lparr>room_status := ''playing'', room_currentPlayerId := Some first\<rparr> =
                room\<lparr>room_currentPlayerId := Some first\<rparr>"
      using playing by simp
    note run = start_success [OF room host enough up first_def refl]
    have stored: "getRoom (db (fst (post_api_rooms_id_start fl s roomId b))) roomId =
        Some (room\<lparr>room_currentPlayerId := Some first\<rparr>)"
      using room getRoom_Some [OF room] playing
      by (simp add: run getRoom_def find_map_key)
    have post: "post_api_rooms_id_start fl s roomId b =
       (s\<lparr>db := (db s)\<lparr>rooms :=
             map (\<lambda>r. if room_id r = roomId
                       then r\<lparr>room_status := ''playing'', room_currentPlayerId := Some first\<rparr>
                       else r) (rooms (db s))\<rparr>,
          sent := sent s @
             map (\<lambda>w. (w, JSON_stringify
                    (JObj [(''type'', JStr ''game_started''),
                           (''currentPlayerId'', JNum first)])))
                 (filter (\<lambda>w. readyState s w = OPEN) (connections_of s roomId))\<rparr>,
        Response 200 (BRoom (Some (room\<lparr>room_currentPlayerId := Some first\<rparr>))))"
      by (simp add: run same receivers_def JSON_stringify_def game_started_def)
    from post stored playing show ?thesis by simp
  qed
  from ok move again show ?thesis
    unfolding s_def first_def by blast
qed

theorem status_only_moves_to_playing_witness:
  "getRoom (db playing_newest_first) ''ABC123'' =
     Some \<lparr>room_id = ''ABC123'', room_hostId = 1, room_status = ''playing'',
           room_currentPlayerId = Some 1, room_currentRound = 1, room_maxRounds = 5\<rparr>
   \<and> (\<exists>room'. getRoom (db (step playing_newest_first (Http [] start_by_host))) ''ABC123'' =
                 Some room'
          \<and> room_status room' = ''playing'')
   \<and> snd (post_api_rooms_id_start [] playing_newest_first ''ABC123'' \<lparr>sb_hostId = Some 1\<rparr>) =
       Response 200 (BRoom (Some \<lparr>room_id = ''ABC123'', room_hostId = 1,
                                  room_status = ''playing'', room_currentPlayerId = Some 2,
                                  room_currentRound = 1, room_maxRounds = 5\<rparr>))
   \<and> getRoom (db (fst (post_api_rooms_id_start [] playing_newest_first ''ABC123''
                          \<lparr>sb_hostId = Some 1\<rparr>))) ''ABC123'' =
       Some \<lparr>room_id = ''ABC123'', room_hostId = 1, room_status = ''playing'',
             room_currentPlayerId = Some 2, room_currentRound = 1, room_maxRounds = 5\<rparr>
   \<and> sent (fst (post_api_rooms_id_start [] playing_newest_first ''ABC123''
                   \<lparr>sb_hostId = Some 1\<rparr>)) =
       sent playing_newest_first @
         [(10, JObj [(''type'', JStr ''game_started''), (''currentPlayerId'', JNum 2)]),
          (20, JObj [(''type'', JStr ''game_started''), (''currentPlayerId'', JNum 2)])]"
proof -
  define es where
    "es = lobby_events @ [Http [] start_by_host, Replan_players newest_first]"
  define room where "room = \<lparr>room_id = ''ABC123'', room_hostId = 1, room_status = ''playing'',
           room_currentPlayerId = Some 1, room_currentRound = 1, room_maxRounds = 5\<rparr>"
  have s: "run init es = playing_newest_first"
    by (simp add: es_def playing_newest_first_run)
  have r: "getRoom (db (run init es)) ''ABC123'' = Some room"
    by (simp add: s playing_newest_first_fields room_def)
  note all = status_only_moves_to_playing
         [OF r, of "Http [] start_by_host" "\<lparr>sb_hostId = Some 1\<rparr>" "[]", unfolded s]
  have pre: "room_status room = ''playing'' \<and> sb_hostId \<lparr>sb_hostId = Some 1\<rparr> = Some (room_hostId room)
            \<and> 2 \<le> length (getRoomPlayers (db playing_newest_first) ''ABC123'')
            \<and> \<not> faulty [] 0 \<and> \<not> faulty [] 1 \<and> \<not> faulty [] 2"
    by (simp add: room_def playing_newest_first_fields faulty_def outcome_of_def)
  from all have move: "\<exists>room'. getRoom (db (step playing_newest_first (Http [] start_by_host)))
                           ''ABC123'' = Some room'
          \<and> room_status room' = ''playing''"
    by (auto simp: room_def)
  note again = all [THEN conjunct2, THEN conjunct2, THEN mp, OF pre]
  have post: "post_api_rooms_id_start [] playing_newest_first ''ABC123'' \<lparr>sb_hostId = Some 1\<rparr> =
       (playing_newest_first\<lparr>db := (db playing_newest_first)\<lparr>rooms :=
             map (\<lambda>r. if room_id r = ''ABC123''
                       then r\<lparr>room_status := ''playing'', room_currentPlayerId := Some 2\<rparr>
                       else r) (rooms (db playing_newest_first))\<rparr>,
          sent := sent playing_newest_first @
             map (\<lambda>w. (w, JSON_stringify
                    (JObj [(''type'', JStr ''game_started''),
                           (''currentPlayerId'', JNum 2)])))
                 (filter (\<lambda>w. readyState playing_newest_first w = OPEN)
                         (connections_of playing_newest_first ''ABC123''))\<rparr>,
        Response 200 (BRoom (Some (room\<lparr>room_currentPlayerId := Some 2\<rparr>))))"
    using again [THEN conjunct1] by (simp add: playing_newest_first_fields)
  have stored: "getRoom (db (fst (post_api_rooms_id_start [] playing_newest_first ''ABC123''
                          \<lparr>sb_hostId = Some 1\<rparr>))) ''ABC123'' =
       Some (room\<lparr>room_currentPlayerId := Some 2\<rparr>)"
    using again [THEN conjunct2, THEN conjunct1] by (simp add: playing_newest_first_fields)
  have a: "snd (post_api_rooms_id_start [] playing_newest_first ''ABC123''
                  \<lparr>sb_hostId = Some 1\<rparr>) =
       Response 200 (BRoom (Some \<lparr>room_id = ''ABC123'', room_hostId = 1,
                                  room_status = ''playing'', room_currentPlayerId = Some 2,
                                  room_currentRound = 1, room_maxRounds = 5\<rparr>))"
    by (simp add: post room_def)
  have b: "sent (fst (post_api_rooms_id_start [] playing_newest_first ''ABC123''
                   \<lparr>sb_hostId = Some 1\<rparr>)) =
       sent playing_newest_first @
         [(10, JObj [(''type'', JStr ''game_started''), (''currentPlayerId'', JNum 2)]),
          (20, JObj [(''type'', JStr ''game_started''), (''currentPlayerId'', JNum 2)])]"
    by (simp add: post playing_newest_first_fields connections_of_def JSON_stringify_def)
  have c: "getRoom (db (fst (post_api_rooms_id_start [] playing_newest_first ''ABC123''
                          \<lparr>sb_hostId = Some 1\<rparr>))) ''ABC123'' =
       Some \<lparr>room_id = ''ABC123'', room_hostId = 1, room_status = ''playing'',
             room_currentPlayerId = Some 2, room_currentRound = 1, room_maxRounds = 5\<rparr>"
    using stored by (simp add: room_def)
  from playing_newest_first_fields(1) move a c b show ?thesis
    by (simp only: simp_thms)
qed

text \<open>
  C2 as stated fails: the room ``ABC123'' is playing with user 1 as current player, and
  its host calls start again. The response is 200 with the room, and the object
  ``game_started'' goes out a second time. When the database returns the newest player
  row first, the repeated start stores user 2 as current player in place of user 1.
\<close>

theorem start_again_succeeds:
  "getRoom (db playing) ''ABC123'' =
     Some \<lparr>room_id = ''ABC123'', room_hostId = 1, room_status = ''playing'',
           room_currentPlayerId = Some 1, room_currentRound = 1, room_maxRounds = 5\<rparr>
   \<and> snd (post_api_rooms_id_start [] playing ''ABC123'' \<lparr>sb_hostId = Some 1\<rparr>) =
       Response 200 (BRoom (Some \<lparr>room_id = ''ABC123'', room_hostId = 1,
                                  room_status = ''playing'', room_currentPlayerId = Some 1,
                                  room_currentRound = 1, room_maxRounds = 5\<rparr>))
   \<and> drop (length (sent playing))
        (sent (fst (post_api_rooms_id_start [] playing ''ABC123'' \<lparr>sb_hostId = Some 1\<rparr>))) =
       [(10, JObj [(''type'', JStr ''game_started''), (''currentPlayerId'', JNum 1)]),
        (20, JObj [(''type'', JStr ''game_started''), (''currentPlayerId'', JNum 1)])]
   \<and> getRoom (db playing_newest_first) ''ABC123'' =
     Some \<lparr>room_id = ''ABC123'', room_hostId = 1, room_status = ''playing'',
           room_currentPlayerId = Some 1, room_currentRound = 1, room_maxRounds = 5\<rparr>
   \<and> getRoom (db (fst (post_api_rooms_id_start [] playing_newest_first ''ABC123''
                          \<lparr>sb_hostId = Some 1\<rparr>))) ''ABC123'' =
       Some \<lparr>room_id = ''ABC123'', room_hostId = 1, room_status = ''playing'',
             room_currentPlayerId = Some 2, room_currentRound = 1, room_maxRounds = 5\<rparr>"
  by code_simp

text \<open>
  C3, as the code has it. The submissions route looks up the room and compares the
  player with the room's current player; it never looks at the submissions already
  stored. When the body parses, the storage answers, the room exists, the player is
  its current player (and a user) and the next id is free, the request succeeds, and
  every success appends exactly one row for the request's room and round: the number
  of rows stored for that room and round grows by one each time.
\<close>

theorem submit_phrase_appends_a_row:
  "(insertGameSubmissionSchema b = Some d \<and> \<not> faulty fl 0 \<and> \<not> faulty fl 1
      \<and> getRoom (db s) (is_roomId d) = Some room
      \<and> room_currentPlayerId room = Some (is_playerId d)
      \<and> has_user (db s) (is_playerId d)
      \<and> \<not> has_submission (db s) (gameSubmissions_id_seq (db s) + 1) \<longrightarrow>
      (\<exists>s' row. post_api_submissions fl s b = (s', Response 200 (BSubmission row))))
   \<and> (post_api_submissions fl s b = (s', Response 200 body) \<longrightarrow>
        (\<exists>d row. insertGameSubmissionSchema b = Some d \<and> body = BSubmission row
           \<and> sub_roomId row = is_roomId d \<and> sub_round row = is_round d
           \<and> gameSubmissions (db s') = gameSubmissions (db s) @ [row]
           \<and> length (filter (\<lambda>x. sub_roomId x = is_roomId d \<and> sub_round x = is_round d)
                            (gameSubmissions (db s'))) =
               Suc (length (filter (\<lambda>x. sub_roomId x = is_roomId d \<and> sub_round x = is_round d)
                                   (gameSubmissions (db s))))))"
proof (intro conjI impI)
  assume a: "insertGameSubmissionSchema b = Some d \<and> \<not> faulty fl 0 \<and> \<not> faulty fl 1
      \<and> getRoom (db s) (is_roomId d) = Some room
      \<and> room_currentPlayerId room = Some (is_playerId d)
      \<and> has_user (db s) (is_playerId d)
      \<and> \<not> has_submission (db s) (gameSubmissions_id_seq (db s) + 1)"
  then show "\<exists>s' row. post_api_submissions fl s b = (s', Response 200 (BSubmission row))"
    using submit_success [of b d fl s room] by blast
next
  assume "post_api_submissions fl s b = (s', Response 200 body)"
  from submit_result [OF this]
  show "\<exists>d row. insertGameSubmissionSchema b = Some d \<and> body = BSubmission row
           \<and> sub_roomId row = is_roomId d \<and> sub_round row = is_round d
           \<and> gameSubmissions (db s') = gameSubmissions (db s) @ [row]
           \<and> length (filter (\<lambda>x. sub_roomId x = is_roomId d \<and> sub_round x = is_round d)
                            (gameSubmissions (db s'))) =
               Suc (length (filter (\<lambda>x. sub_roomId x = is_roomId d \<and> sub_round x = is_round d)
                                   (gameSubmissions (db s))))"
    by auto
qed

theorem submit_phrase_appends_a_row_witness:
  "\<exists>s' row. post_api_submissions [] voting karaoke = (s', Response 200 (BSubmission row))
     \<and> length (filter (\<lambda>x. sub_roomId x = ''ABC123'' \<and> sub_round x = 1)
                      (gameSubmissions (db s'))) = 2"
proof -
  have up: "\<not> faulty [] 0" "\<not> faulty [] 1" by (simp_all add: faulty_def outcome_of_def)
  from submit_phrase_appends_a_row
         [of karaoke _ "[]" voting, THEN conjunct1, rule_format]
       karaoke_parsed(1) up voting_fields(1,2,3)
  obtain s' row where
    ok: "post_api_submissions [] voting karaoke = (s', Response 200 (BSubmission row))"
    by auto
  from submit_phrase_appends_a_row
         [of karaoke _ "[]" voting _ s' "BSubmission row", THEN conjunct2, rule_format, OF ok]
       karaoke_parsed(1)
  have "length (filter (\<lambda>x. sub_roomId x = ''ABC123'' \<and> sub_round x = 1)
                      (gameSubmissions (db s'))) = 2"
    by (auto simp: voting_fields)
  with ok show ?thesis by blast
qed

text \<open>
  C3 as stated fails: in the playing room user 1, whose turn it is, posts the same
  submission for round 1 twice. Both requests are answered 200 and the table holds two
  rows for (``ABC123'', 1).
\<close>

theorem two_submissions_for_one_round:
  "snd (post_api_submissions [] playing karaoke) =
     Response 200 (BSubmission \<lparr>sub_id = 1, sub_roomId = ''ABC123'', sub_playerId = 1,
        sub_round = 1, sub_phrase = ''I once sang karaoke badly'', sub_actualType = ''truth''\<rparr>)
   \<and> snd (post_api_submissions [] voting karaoke) =
     Response 200 (BSubmission \<lparr>sub_id = 2, sub_roomId = ''ABC123'', sub_playerId = 1,
        sub_round = 1, sub_phrase = ''I once sang karaoke badly'', sub_actualType = ''truth''\<rparr>)
   \<and> gameSubmissions (db (run playing [Http [] (Post_submissions karaoke),
                                        Http [] (Post_submissions karaoke)])) =
       [\<lparr>sub_id = 1, sub_roomId = ''ABC123'', sub_playerId = 1, sub_round = 1,
         sub_phrase = ''I once sang karaoke badly'', sub_actualType = ''truth''\<rparr>,
        \<lparr>sub_id = 2, sub_roomId = ''ABC123'', sub_playerId = 1, sub_round = 1,
         sub_phrase = ''I once sang karaoke badly'', sub_actualType = ''truth''\<rparr>]"
  by code_simp

text \<open>
  C4, as the code has it. \<^verbatim>\<open>POST /api/rooms/:id/start\<close>, called by the host of a room
  that exists, with the storage answering, counts the rows the players' query returns:
  with fewer than two the response is \<open>InsufficientPlayers\<close> and nothing changes. With
  two or more rows, whoever the users of the rows are, the response is 200 with the
  updated room; the room is stored with status \<open>playing\<close> and, as current player, the
  user of the first row returned, and the object with \<^verbatim>\<open>type\<close> ``game_started'' and that
  user id as \<^verbatim>\<open>currentPlayerId\<close> is sent to the open sockets of the room. The first row
  returned is a player row of the room; when the database ranks all rows alike, so that
  they come in the order of insertion, it is the earliest row of the room whose user
  exists.
\<close>

theorem start_game_by_host:
  assumes "getRoom (db s) roomId = Some room"
      and "sb_hostId b = Some (room_hostId room)"
      and "\<not> faulty fl 0" and "\<not> faulty fl 1" and "\<not> faulty fl 2"
  shows "(length (getRoomPlayers (db s) roomId) < 2 \<longrightarrow>
            post_api_rooms_id_start fl s roomId b = (s, InsufficientPlayers))
       \<and> (2 \<le> length (getRoomPlayers (db s) roomId) \<longrightarrow>
            (\<exists>first room'.
               first = fst (hd (getRoomPlayers (db s) roomId))
             \<and> first \<in> set (roomPlayers (db s)) \<and> rp_roomId first = roomId
             \<and> room' = room\<lparr>room_status := ''playing'',
                              room_currentPlayerId := Some (rp_userId first)\<rparr>
             \<and> post_api_rooms_id_start fl s roomId b =
                 (s\<lparr>db := (db s)\<lparr>rooms :=
                         map (\<lambda>r. if room_id r = roomId
                                   then r\<lparr>room_status := ''playing'',
                                          room_currentPlayerId := Some (rp_userId first)\<rparr>
                                   else r) (rooms (db s))\<rparr>,
                     sent := sent s @
                       map (\<lambda>w. (w, JSON_stringify
                              (JObj [(''type'', JStr ''game_started''),
                                     (''currentPlayerId'', JNum (rp_userId first))])))
                           (filter (\<lambda>w. readyState s w = OPEN) (connections_of s roomId))\<rparr>,
                  Response 200 (BRoom (Some room')))
             \<and> getRoom (db (fst (post_api_rooms_id_start fl s roomId b))) roomId = Some room'
             \<and> ((\<forall>p q. roomPlayers_rank (db s) p = roomPlayers_rank (db s) q) \<longrightarrow>
                  find (\<lambda>p. rp_roomId p = roomId \<and> has_user (db s) (rp_userId p))
                       (roomPlayers (db s)) = Some first)))"
proof (intro conjI impI)
  assume "length (getRoomPlayers (db s) roomId) < 2"
  with assms show "post_api_rooms_id_start fl s roomId b = (s, InsufficientPlayers)"
    by (simp add: post_api_rooms_id_start_def query_def faulty_def)
next
  assume enough: "2 \<le> length (getRoomPlayers (db s) roomId)"
  define first where "first = fst (hd (getRoomPlayers (db s) roomId))"
  define room' where
    "room' = room\<lparr>room_status := ''playing'', room_currentPlayerId := Some (rp_userId first)\<rparr>"
  from enough have ne: "getRoomPlayers (db s) roomId \<noteq> []" by auto
  note row = first_of_players [OF ne, folded first_def]
  note run = start_success [OF assms(1,2) enough assms(3,4,5) refl refl, folded first_def]
  have stored: "getRoom (db (fst (post_api_rooms_id_start fl s roomId b))) roomId = Some room'"
    using assms(1) getRoom_Some [OF assms(1)]
    by (simp add: run getRoom_def find_map_key room'_def)
  have order: "find (\<lambda>p. rp_roomId p = roomId \<and> has_user (db s) (rp_userId p))
                    (roomPlayers (db s)) = Some first"
    if "\<forall>p q. roomPlayers_rank (db s) p = roomPlayers_rank (db s) q"
  proof -
    from that have eq: "getRoomPlayers (db s) roomId = player_rows (db s) roomId"
      by (rule getRoomPlayers_unranked)
    with ne have "player_rows (db s) roomId \<noteq> []" by simp
    from first_player [OF this] show ?thesis
      by (simp add: first_def eq)
  qed
  show "\<exists>first room'.
               first = fst (hd (getRoomPlayers (db s) roomId))
             \<and> first \<in> set (roomPlayers (db s)) \<and> rp_roomId first = roomId
             \<and> room' = room\<lparr>room_status := ''playing'',
                              room_currentPlayerId := Some (rp_userId first)\<rparr>
             \<and> post_api_rooms_id_start fl s roomId b =
                 (s\<lparr>db := (db s)\<lparr>rooms :=
                         map (\<lambda>r. if room_id r = roomId
                                   then r\<lparr>room_status := ''playing'',
                                          room_currentPlayerId := Some (rp_userId first)\<rparr>
                                   else r) (rooms (db s))\<rparr>,
                     sent := sent s @
                       map (\<lambda>w. (w, JSON_stringify
                              (JObj [(''type'', JStr ''game_started''),
                                     (''currentPlayerId'', JNum (rp_userId first))])))
                           (filter (\<lambda>w. readyState s w = OPEN) (connections_of s roomId))\<rparr>,
                  Response 200 (BRoom (Some room')))
             \<and> getRoom (db (fst (post_api_rooms_id_start fl s roomId b))) roomId = Some room'
             \<and> ((\<forall>p q. roomPlayers_rank (db s) p = roomPlayers_rank (db s) q) \<longrightarrow>
                  find (\<lambda>p. rp_roomId p = roomId \<and> has_user (db s) (rp_userId p))
                       (roomPlayers (db s)) = Some first)"
  proof (intro exI [of _ first] exI [of _ room'] conjI impI)
    show "first = fst (hd (getRoomPlayers (db s) roomId))" by (simp add: first_def)
    show "first \<in> set (roomPlayers (db s))" using row by simp
    show "rp_roomId first = roomId" using row by simp
    show "room' = room\<lparr>room_status := ''playing'',
                        room_currentPlayerId := Some (rp_userId first)\<rparr>"
      by (simp add: room'_def)
    show "post_api_rooms_id_start fl s roomId b =
                 (s\<lparr>db := (db s)\<lparr>rooms :=
                         map (\<lambda>r. if room_id r = roomId
                                   then r\<lparr>room_status := ''playing'',
                                          room_currentPlayerId := Some (rp_userId first)\<rparr>
                                   else r) (rooms (db s))\<rparr>,
                     sent := sent s @
                       map (\<lambda>w. (w, JSON_stringify
                              (JObj [(''type'', JStr ''game_started''),
                                     (''currentPlayerId'', JNum (rp_userId first))])))
                           (filter (\<lambda>w. readyState s w = OPEN) (connections_of s roomId))\<rparr>,
                  Response 200 (BRoom (Some room')))"
      by (simp add: run room'_def receivers_def JSON_stringify_def game_started_def)
    show "getRoom (db (fst (post_api_rooms_id_start fl s roomId b))) roomId = Some room'"
      by (rule stored)
    assume "\<forall>p q. roomPlayers_rank (db s) p = roomPlayers_rank (db s) q"
    then show "find (\<lambda>p. rp_roomId p = roomId \<and> has_user (db s) (rp_userId p))
                       (roomPlayers (db s)) = Some first"
      by (rule order)
  qed
qed

theorem start_game_by_host_witness:
  "post_api_rooms_id_start [] host_alone ''ABC123'' \<lparr>sb_hostId = Some 1\<rparr> =
     (host_alone, InsufficientPlayers)
   \<and> snd (post_api_rooms_id_start [] lobby ''ABC123'' \<lparr>sb_hostId = Some 1\<rparr>) =
       Response 200 (BRoom (Some \<lparr>room_id = ''ABC123'', room_hostId = 1,
                                  room_status = ''playing'', room_currentPlayerId = Some 1,
                                  room_currentRound = 1, room_maxRounds = 5\<rparr>))
   \<and> getRoom (db (fst (post_api_rooms_id_start [] lobby ''ABC123'' \<lparr>sb_hostId = Some 1\<rparr>)))
        ''ABC123'' =
       Some \<lparr>room_id = ''ABC123'', room_hostId = 1, room_status = ''playing'',
             room_currentPlayerId = Some 1, room_currentRound = 1, room_maxRounds = 5\<rparr>
   \<and> sent (fst (post_api_rooms_id_start [] lobby ''ABC123'' \<lparr>sb_hostId = Some 1\<rparr>)) =
       sent lobby @
         [(10, JObj [(''type'', JStr ''game_started''), (''currentPlayerId'', JNum 1)]),
          (20, JObj [(''type'', JStr ''game_started''), (''currentPlayerId'', JNum 1)])]
   \<and> find (\<lambda>p. rp_roomId p = ''ABC123'' \<and> has_user (db lobby) (rp_userId p))
           (roomPlayers (db lobby)) =
       Some \<lparr>rp_id = 1, rp_roomId = ''ABC123'', rp_userId = 1, rp_score = 0\<rparr>"
proof -
  have up: "\<not> faulty [] 0" "\<not> faulty [] 1" "\<not> faulty [] 2"
    by (simp_all add: faulty_def outcome_of_def)
  have alone: "post_api_rooms_id_start [] host_alone ''ABC123'' \<lparr>sb_hostId = Some 1\<rparr> =
      (host_alone, InsufficientPlayers)"
    using start_game_by_host [OF host_alone_fields(1) _ up, of "\<lparr>sb_hostId = Some 1\<rparr>"]
    by (simp add: host_alone_fields)
  have first: "fst (hd (getRoomPlayers (db lobby) ''ABC123'')) =
      \<lparr>rp_id = 1, rp_roomId = ''ABC123'', rp_userId = 1, rp_score = 0\<rparr>"
    by code_simp
  define room where "room = \<lparr>room_id = ''ABC123'', room_hostId = 1, room_status = ''waiting'',
           room_currentPlayerId = None, room_currentRound = 1, room_maxRounds = 5\<rparr>"
  have found: "getRoom (db lobby) ''ABC123'' = Some room"
    by (simp add: lobby_fields room_def)
  have host: "sb_hostId \<lparr>sb_hostId = Some 1\<rparr> = Some (room_hostId room)"
    by (simp add: room_def)
  have enough: "2 \<le> length (getRoomPlayers (db lobby) ''ABC123'')"
    by (simp add: lobby_fields)
  from start_game_by_host [OF found host up, THEN conjunct2, THEN mp, OF enough]
  obtain row room' where
    row: "row = fst (hd (getRoomPlayers (db lobby) ''ABC123''))"
    and room': "room' = room\<lparr>room_status := ''playing'',
                              room_currentPlayerId := Some (rp_userId row)\<rparr>"
    and post: "post_api_rooms_id_start [] lobby ''ABC123'' \<lparr>sb_hostId = Some 1\<rparr> =
       (lobby\<lparr>db := (db lobby)\<lparr>rooms :=
                  map (\<lambda>r. if room_id r = ''ABC123''
                            then r\<lparr>room_status := ''playing'',
                                   room_currentPlayerId := Some (rp_userId row)\<rparr>
                            else r) (rooms (db lobby))\<rparr>,
              sent := sent lobby @
                map (\<lambda>w. (w, JSON_stringify
                       (JObj [(''type'', JStr ''game_started''),
                              (''currentPlayerId'', JNum (rp_userId row))])))
                    (filter (\<lambda>w. readyState lobby w = OPEN)
                            (connections_of lobby ''ABC123''))\<rparr>,
        Response 200 (BRoom (Some room')))"
    and stored: "getRoom (db (fst (post_api_rooms_id_start [] lobby ''ABC123''
                                     \<lparr>sb_hostId = Some 1\<rparr>))) ''ABC123'' = Some room'"
    and order: "(\<forall>p q. roomPlayers_rank (db lobby) p = roomPlayers_rank (db lobby) q) \<longrightarrow>
       find (\<lambda>p. rp_roomId p = ''ABC123'' \<and> has_user (db lobby) (rp_userId p))
            (roomPlayers (db lobby)) = Some row"
    by blast
  have row1: "row = \<lparr>rp_id = 1, rp_roomId = ''ABC123'', rp_userId = 1, rp_score = 0\<rparr>"
    by (simp add: row first)
  have room1: "room' = \<lparr>room_id = ''ABC123'', room_hostId = 1, room_status = ''playing'',
             room_currentPlayerId = Some 1, room_currentRound = 1, room_maxRounds = 5\<rparr>"
    by (simp add: room' room_def row1)
  have a: "snd (post_api_rooms_id_start [] lobby ''ABC123'' \<lparr>sb_hostId = Some 1\<rparr>) =
       Response 200 (BRoom (Some \<lparr>room_id = ''ABC123'', room_hostId = 1,
                                  room_status = ''playing'', room_currentPlayerId = Some 1,
                                  room_currentRound = 1, room_maxRounds = 5\<rparr>))"
    by (simp add: post room1)
  have b: "sent (fst (post_api_rooms_id_start [] lobby ''ABC123'' \<lparr>sb_hostId = Some 1\<rparr>)) =
       sent lobby @
         [(10, JObj [(''type'', JStr ''game_started''), (''currentPlayerId'', JNum 1)]),
          (20, JObj [(''type'', JStr ''game_started''), (''currentPlayerId'', JNum 1)])]"
    by (simp add: post row1 lobby_fields connections_of_def JSON_stringify_def)
  have c: "find (\<lambda>p. rp_roomId p = ''ABC123'' \<and> has_user (db lobby) (rp_userId p))
           (roomPlayers (db lobby)) =
       Some \<lparr>rp_id = 1, rp_roomId = ''ABC123'', rp_userId = 1, rp_score = 0\<rparr>"
    using order by (simp add: lobby_rank row1)
  from alone a stored b c show ?thesis
    by (simp only: room1 simp_thms)
qed

text \<open>
  C4 as stated fails. The host, user 1, is the only user in ``ABC123'' and joins it a
  second time: the room has two player rows of one user, and start by the host is
  answered 200 with the room playing. And in the lobby, where user 1 joined before user
  2, the database returns the newest player row first: start makes user 2 the current
  player and broadcasts that id.
\<close>

theorem start_with_one_user_or_newest_first:
  "map (rp_userId \<circ> fst) (getRoomPlayers (db host_twice) ''ABC123'') = [1, 1]
   \<and> snd (post_api_rooms_id_start [] host_twice ''ABC123'' \<lparr>sb_hostId = Some 1\<rparr>) =
       Response 200 (BRoom (Some \<lparr>room_id = ''ABC123'', room_hostId = 1,
                                  room_status = ''playing'', room_currentPlayerId = Some 1,
                                  room_currentRound = 1, room_maxRounds = 5\<rparr>))
   \<and> map rp_userId (roomPlayers (db lobby_newest_first)) = [1, 2]
   \<and> snd (post_api_rooms_id_start [] lobby_newest_first ''ABC123'' \<lparr>sb_hostId = Some 1\<rparr>) =
       Response 200 (BRoom (Some \<lparr>room_id = ''ABC123'', room_hostId = 1,
                                  room_status = ''playing'', room_currentPlayerId = Some 2,
                                  room_currentRound = 1, room_maxRounds = 5\<rparr>))
   \<and> drop (length (sent lobby_newest_first))
        (sent (fst (post_api_rooms_id_start [] lobby_newest_first ''ABC123''
                      \<lparr>sb_hostId = Some 1\<rparr>))) =
       [(10, JObj [(''type'', JStr ''game_started''), (''currentPlayerId'', JNum 2)]),
        (20, JObj [(''type'', JStr ''game_started''), (''currentPlayerId'', JNum 2)])]"
  by code_simp

text \<open>
  C5. With the body parsed and the room found, a submission whose \<^verbatim>\<open>playerId\<close> is not the
  room's \<^verbatim>\<open>currentPlayerId\<close> (also when that is null) is answered \<open>NotYourTurn\<close> and
  changes nothing. On success the stored row is the new last row of the table and the
  open sockets of the room are sent one object each: its \<^verbatim>\<open>submission\<close> has the fields
  \<^verbatim>\<open>id\<close>, \<^verbatim>\<open>phrase\<close>, \<^verbatim>\<open>round\<close> and \<^verbatim>\<open>playerId\<close> of that row and no other. What is sent
  is the same whatever \<^verbatim>\<open>actualType\<close> the request carries.
\<close>

theorem submit_phrase_turn_and_broadcast:
  assumes "insertGameSubmissionSchema b = Some d"
  shows "(\<not> faulty fl 0 \<and> getRoom (db s) (is_roomId d) = Some room
            \<and> room_currentPlayerId room \<noteq> Some (is_playerId d) \<longrightarrow>
            post_api_submissions fl s b = (s, NotYourTurn))
       \<and> (post_api_submissions fl s b = (s', Response 200 body) \<longrightarrow>
            (\<exists>row. body = BSubmission row
               \<and> gameSubmissions (db s') = gameSubmissions (db s) @ [row]
               \<and> sent s' = sent s @
                    map (\<lambda>w. (w, JSON_stringify
                           (JObj [(''type'', JStr ''new_submission''),
                                  (''submission'',
                                   JObj [(''id'', JNum (sub_id row)),
                                         (''phrase'', JStr (sub_phrase row)),
                                         (''round'', JNum (sub_round row)),
                                         (''playerId'', JNum (sub_playerId row))])])))
                        (filter (\<lambda>w. readyState s w = OPEN)
                                (connections_of s (is_roomId d)))))
       \<and> sent (fst (post_api_submissions fl s (b\<lparr>gb_actualType := Some t\<rparr>))) =
           sent (fst (post_api_submissions fl s b))"
proof (intro conjI impI)
  assume "\<not> faulty fl 0 \<and> getRoom (db s) (is_roomId d) = Some room
            \<and> room_currentPlayerId room \<noteq> Some (is_playerId d)"
  with assms show "post_api_submissions fl s b = (s, NotYourTurn)"
    by (simp add: post_api_submissions_def query_def attempt_def database_after_def faulty_def)
next
  assume "post_api_submissions fl s b = (s', Response 200 body)"
  from submit_result [OF this] assms
  show "\<exists>row. body = BSubmission row
               \<and> gameSubmissions (db s') = gameSubmissions (db s) @ [row]
               \<and> sent s' = sent s @
                    map (\<lambda>w. (w, JSON_stringify
                           (JObj [(''type'', JStr ''new_submission''),
                                  (''submission'',
                                   JObj [(''id'', JNum (sub_id row)),
                                         (''phrase'', JStr (sub_phrase row)),
                                         (''round'', JNum (sub_round row)),
                                         (''playerId'', JNum (sub_playerId row))])])))
                        (filter (\<lambda>w. readyState s w = OPEN)
                                (connections_of s (is_roomId d)))"
    by (auto simp: JSON_stringify_def new_submission_def receivers_def)
next
  show "sent (fst (post_api_submissions fl s (b\<lparr>gb_actualType := Some t\<rparr>))) =
           sent (fst (post_api_submissions fl s b))"
    by (rule submit_sent_ignores_type [OF assms])
qed

theorem submit_phrase_turn_and_broadcast_witness:
  "post_api_submissions [] playing karaoke_by_bob = (playing, NotYourTurn)
   \<and> sent (fst (post_api_submissions [] playing karaoke)) =
       sent playing @
         [(10, JObj [(''type'', JStr ''new_submission''),
                     (''submission'', JObj [(''id'', JNum 1),
                        (''phrase'', JStr ''I once sang karaoke badly''),
                        (''round'', JNum 1), (''playerId'', JNum 1)])]),
          (20, JObj [(''type'', JStr ''new_submission''),
                     (''submission'', JObj [(''id'', JNum 1),
                        (''phrase'', JStr ''I once sang karaoke badly''),
                        (''round'', JNum 1), (''playerId'', JNum 1)])])]"
proof -
  have up: "\<not> faulty [] 0" by (simp add: faulty_def outcome_of_def)
  have a: "post_api_submissions [] playing karaoke_by_bob = (playing, NotYourTurn)"
    using submit_phrase_turn_and_broadcast
            [OF karaoke_parsed(2), of "[]" playing
               "\<lparr>room_id = ''ABC123'', room_hostId = 1, room_status = ''playing'',
                 room_currentPlayerId = Some 1, room_currentRound = 1, room_maxRounds = 5\<rparr>"]
          up playing_fields(1)
    by simp
  define row where "row = \<lparr>sub_id = 1, sub_roomId = ''ABC123'', sub_playerId = 1,
    sub_round = 1, sub_phrase = ''I once sang karaoke badly'', sub_actualType = ''truth''\<rparr>"
  define s' where "s' = fst (post_api_submissions [] playing karaoke)"
  have ok: "post_api_submissions [] playing karaoke = (s', Response 200 (BSubmission row))"
    using karaoke_posted by (simp add: s'_def row_def prod_eq_iff)
  from submit_phrase_turn_and_broadcast
         [OF karaoke_parsed(1), of "[]" playing _ s' "BSubmission row",
          THEN conjunct2, THEN conjunct1, rule_format, OF ok]
  have "sent s' = sent playing @
         [(10, JObj [(''type'', JStr ''new_submission''),
                     (''submission'', JObj [(''id'', JNum 1),
                        (''phrase'', JStr ''I once sang karaoke badly''),
                        (''round'', JNum 1), (''playerId'', JNum 1)])]),
          (20, JObj [(''type'', JStr ''new_submission''),
                     (''submission'', JObj [(''id'', JNum 1),
                        (''phrase'', JStr ''I once sang karaoke badly''),
                        (''round'', JNum 1), (''playerId'', JNum 1)])])]"
    by (auto simp: playing_fields connections_of_def JSON_stringify_def row_def)
  with a show ?thesis
    by (simp add: s'_def)
qed

text \<open>
  C6. When a vote of the same voter for the same submission is stored, a vote request
  changes nothing, and it is answered \<open>AlreadyVoted\<close> when the lookup answers. The
  table of votes changes only by one new last row for the request's pair, and only when
  no row for that pair was stored; after a successful vote the same request is answered
  \<open>AlreadyVoted\<close>.
\<close>

theorem cast_vote_once:
  "(insertGameVoteSchema b = Some d
      \<and> (\<exists>v \<in> set (gameVotes (db s)).
            vote_submissionId v = iv_submissionId d \<and> vote_voterId v = iv_voterId d) \<longrightarrow>
      fst (post_api_votes fl s b) = s
      \<and> (\<not> faulty fl 0 \<longrightarrow> snd (post_api_votes fl s b) = AlreadyVoted))
   \<and> (gameVotes (db (fst (post_api_votes fl s b))) \<noteq> gameVotes (db s) \<longrightarrow>
        (\<exists>d row. insertGameVoteSchema b = Some d
           \<and> \<not> (\<exists>v \<in> set (gameVotes (db s)).
                   vote_submissionId v = iv_submissionId d \<and> vote_voterId v = iv_voterId d)
           \<and> vote_submissionId row = iv_submissionId d \<and> vote_voterId row = iv_voterId d
           \<and> gameVotes (db (fst (post_api_votes fl s b))) = gameVotes (db s) @ [row]))
   \<and> (post_api_votes fl s b = (s', Response 200 body) \<and> \<not> faulty fl' 0 \<longrightarrow>
        post_api_votes fl' s' b = (s', AlreadyVoted))"
proof (intro conjI impI)
  assume a: "insertGameVoteSchema b = Some d
      \<and> (\<exists>v \<in> set (gameVotes (db s)).
            vote_submissionId v = iv_submissionId d \<and> vote_voterId v = iv_voterId d)"
  then have voted: "hasUserVoted (db s) (iv_submissionId d) (iv_voterId d)"
    by (simp add: hasUserVoted_iff)
  with a show "fst (post_api_votes fl s b) = s"
    by (simp add: post_api_votes_def query_def attempt_def database_after_def faulty_def)
  assume "\<not> faulty fl 0"
  with a voted show "snd (post_api_votes fl s b) = AlreadyVoted"
    by (simp add: post_api_votes_def query_def attempt_def database_after_def faulty_def)
next
  assume changed: "gameVotes (db (fst (post_api_votes fl s b))) \<noteq> gameVotes (db s)"
  with votes_after [of fl s b]
  show "\<exists>d row. insertGameVoteSchema b = Some d
           \<and> \<not> (\<exists>v \<in> set (gameVotes (db s)).
                   vote_submissionId v = iv_submissionId d \<and> vote_voterId v = iv_voterId d)
           \<and> vote_submissionId row = iv_submissionId d \<and> vote_voterId row = iv_voterId d
           \<and> gameVotes (db (fst (post_api_votes fl s b))) = gameVotes (db s) @ [row]"
    by (simp add: hasUserVoted_iff)
next
  assume a: "post_api_votes fl s b = (s', Response 200 body) \<and> \<not> faulty fl' 0"
  from vote_result [of fl s b s' body] a
  obtain d where "insertGameVoteSchema b = Some d"
    and "hasUserVoted (db s') (iv_submissionId d) (iv_voterId d)"
    by (auto simp: hasUserVoted_iff)
  with a show "post_api_votes fl' s' b = (s', AlreadyVoted)"
    by (simp add: post_api_votes_def query_def attempt_def database_after_def faulty_def)
qed

theorem cast_vote_once_witness:
  "(\<exists>v \<in> set (gameVotes (db voted)). vote_submissionId v = 1 \<and> vote_voterId v = 2)
   \<and> post_api_votes [] voted vote_by_bob = (voted, AlreadyVoted)
   \<and> snd (post_api_votes [] voting vote_by_bob) =
       Response 200 (BVote \<lparr>vote_id = 1, vote_submissionId = 1, vote_voterId = 2,
                            vote_guessedType = ''meme'', vote_isCorrect = True\<rparr>)
   \<and> snd (post_api_votes [] (fst (post_api_votes [] voting vote_by_bob)) vote_by_bob) =
       AlreadyVoted"
proof -
  have e: "\<exists>v \<in> set (gameVotes (db voted)). vote_submissionId v = 1 \<and> vote_voterId v = 2"
    by (simp add: voted_fields)
  have up: "\<not> faulty [] 0" by (simp add: faulty_def outcome_of_def)
  from cast_vote_once [of vote_by_bob _ voted "[]", THEN conjunct1, rule_format]
       vote_by_bob_parsed e up
  have "fst (post_api_votes [] voted vote_by_bob) = voted
      \<and> snd (post_api_votes [] voted vote_by_bob) = AlreadyVoted"
    by auto
  then have again: "post_api_votes [] voted vote_by_bob = (voted, AlreadyVoted)"
    by (simp add: prod_eq_iff)
  define s' where "s' = fst (post_api_votes [] voting vote_by_bob)"
  define body where "body = BVote \<lparr>vote_id = 1, vote_submissionId = 1, vote_voterId = 2,
                          vote_guessedType = ''meme'', vote_isCorrect = True\<rparr>"
  have ok: "post_api_votes [] voting vote_by_bob = (s', Response 200 body)"
    using vote_by_bob_posted by (simp add: s'_def body_def prod_eq_iff)
  from cast_vote_once [of vote_by_bob _ voting "[]" s' body "[]",
                       THEN conjunct2, THEN conjunct2, rule_format] ok up
  have "post_api_votes [] s' vote_by_bob = (s', AlreadyVoted)"
    by blast
  then have "snd (post_api_votes [] (fst (post_api_votes [] voting vote_by_bob)) vote_by_bob) =
       AlreadyVoted"
    by (simp add: s'_def)
  with e again vote_by_bob_posted show ?thesis by blast
qed

text \<open>
  C7. \<^verbatim>\<open>broadcastToRoom(roomId, message)\<close> serialises the message once and hands that one
  text to \<^verbatim>\<open>send\<close> for exactly the connections of \<open>roomId\<close>'s set whose \<open>readyState\<close> is
  \<open>OPEN\<close>, in the order of the set; every other connection (not open, or only in the
  sets of other rooms) gets nothing, and nothing else of the state changes.
\<close>

theorem broadcast_delivers_to_open_members:
  "sent (broadcastToRoom s roomId message) =
     sent s @ map (\<lambda>w. (w, JSON_stringify message))
                  (filter (\<lambda>w. readyState s w = OPEN) (connections_of s roomId))
   \<and> set (drop (length (sent s)) (sent (broadcastToRoom s roomId message))) =
       {(w, JSON_stringify message) | w.
          w \<in> set (connections_of s roomId) \<and> readyState s w = OPEN}
   \<and> db (broadcastToRoom s roomId message) = db s
   \<and> roomConnections (broadcastToRoom s roomId message) = roomConnections s
   \<and> userConnections (broadcastToRoom s roomId message) = userConnections s
   \<and> readyState (broadcastToRoom s roomId message) = readyState s"
  by (auto simp add: broadcastToRoom_eq receivers_def)

theorem broadcast_delivers_to_open_members_witness:
  "sent (broadcastToRoom three_sockets ''A'' (game_started 7)) =
     sent three_sockets @ [(10, game_started 7)]"
  using broadcast_delivers_to_open_members [of three_sockets "''A''" "game_started 7"]
  by (simp add: three_sockets_fields connections_of_def JSON_stringify_def)

text \<open>
  C8, as the code has it. A \<^verbatim>\<open>join_room\<close> message of a user makes the sending socket the
  user's one entry of \<^verbatim>\<open>userConnections\<close> (an earlier socket of the user is no longer in
  the map under that user, and the bindings of other users stay). Nothing is taken out
  of \<^verbatim>\<open>roomConnections\<close>: every socket that was in a room's set is still in it, and when
  it is open it is sent every later broadcast to that room. No socket's \<open>readyState\<close>
  changes.
\<close>

theorem join_room_replaces_user_binding_only:
  assumes "distinct (map fst (userConnections s))"
      and "s' = ws_on_message s w (Join_room roomId userId)"
  shows "distinct (map fst (userConnections s'))
       \<and> set (userConnections s') =
           insert (userId, w) {x \<in> set (userConnections s). fst x \<noteq> userId}
       \<and> (\<forall>r. set (connections_of s r) \<subseteq> set (connections_of s' r))
       \<and> readyState s' = readyState s
       \<and> (\<forall>r old m. old \<in> set (connections_of s r) \<and> readyState s old = OPEN \<longrightarrow>
             (old, JSON_stringify m) \<in> set (sent (broadcastToRoom s' r m)))"
proof -
  have conns: "set (connections_of s r) \<subseteq> set (connections_of s' r)" for r
    by (auto simp add: assms(2) ws_join_connections_of set_add_def)
  have ready: "readyState s' = readyState s"
    by (simp add: assms(2) ws_join_readyState)
  have "(old, JSON_stringify m) \<in> set (sent (broadcastToRoom s' r m))"
    if "old \<in> set (connections_of s r)" "readyState s old = OPEN" for r old m
    using that conns [of r] by (auto simp add: broadcastToRoom_eq receivers_def ready)
  moreover have "distinct (map fst (userConnections s'))"
    using assms(1) by (simp add: assms(2) ws_join_userConnections distinct_update)
  moreover have "set (userConnections s') =
      insert (userId, w) {x \<in> set (userConnections s). fst x \<noteq> userId}"
    using assms(1) by (simp add: assms(2) ws_join_userConnections set_update_distinct)
  ultimately show ?thesis using conns ready by blast
qed

theorem join_room_replaces_user_binding_only_witness:
  "distinct (map fst (userConnections rebound))
   \<and> userConnections (ws_on_message rebound 11 (Join_room ''ABC123'' 1)) = [(1, 11)]
   \<and> 10 \<in> set (connections_of (ws_on_message rebound 11 (Join_room ''ABC123'' 1)) ''ABC123'')
   \<and> (10, JSON_stringify (game_started 1)) \<in>
       set (sent (broadcastToRoom (ws_on_message rebound 11 (Join_room ''ABC123'' 1))
                    ''ABC123'' (game_started 1)))"
proof -
  have d: "distinct (map fst (userConnections rebound))"
    by (simp add: rebound_fields)
  have m: "10 \<in> set (connections_of rebound ''ABC123'') \<and> readyState rebound 10 = OPEN"
    by (simp add: rebound_fields connections_of_def)
  from join_room_replaces_user_binding_only [OF d refl, of 11 "''ABC123''" 1] m
  show ?thesis
    by (simp add: rebound_fields connections_of_def)
qed

text \<open>
  C8 as stated fails: user 1 is bound on socket 10 in room ``ABC123'' and then sends
  \<^verbatim>\<open>join_room\<close> on socket 11. Socket 10 is still in the room's set, is sent the
  \<^verbatim>\<open>user_joined\<close> of that very message, and is sent the next broadcast to the room.
\<close>

theorem old_connection_stays_in_fan_out:
  "userConnections rebound = [(1, 10)]
   \<and> userConnections (ws_on_message rebound 11 (Join_room ''ABC123'' 1)) = [(1, 11)]
   \<and> roomConnections (ws_on_message rebound 11 (Join_room ''ABC123'' 1)) =
       [(''ABC123'', [10, 11])]
   \<and> sent (broadcastToRoom (ws_on_message rebound 11 (Join_room ''ABC123'' 1))
             ''ABC123'' (game_started 1)) =
       [(10, user_joined 1), (10, user_joined 1), (11, user_joined 1),
        (10, game_started 1), (11, game_started 1)]"
  by code_simp

text \<open>
  C9, as the code has it. A request answered with an error has sent nothing and changed
  no binding of a socket. On every route but the creation of a room, the tables then
  hold the rows they held before (a rejected insert may have advanced the sequence of
  its table), or else a round trip was lost after its statement was committed and they
  hold the rows the successful request stores. The creation of a room inserts the room
  and then the host's player row in two storage calls, with no transaction around them.
  When the body does not parse, the host id is falsy, the insert of the room does not
  reach the database or is rejected by it, nothing has changed. When the insert of the
  room was executed, the answer is the error 400 and the room row (waiting, with that
  host) is stored; unless the response of the insert of the player row was lost, no
  player row is stored with it, and when the insert of the room was answered, it is the
  insert of the player row that was not answered or was rejected.
\<close>

theorem failed_request_leaves_state:
  assumes "handle fl s req = (s', Response code body)" and "code \<noteq> 200"
  shows "roomConnections s' = roomConnections s \<and> userConnections s' = userConnections s
       \<and> readyState s' = readyState s \<and> sent s' = sent s
       \<and> ((\<forall>b. req \<noteq> Post_rooms b) \<longrightarrow>
            same_rows (db s) (db s')
            \<or> Lost_response \<in> set fl
              \<and> (\<exists>ok. snd (handle [] s req) = Response 200 ok)
              \<and> same_rows (db (fst (handle [] s req))) (db s'))
       \<and> (req = Post_rooms b \<longrightarrow>
            (insertRoomSchema b = None \<or> falsy (rb_hostId b) \<longrightarrow> s' = s)
          \<and> (insertRoomSchema b = Some roomData \<and> rb_hostId b = Some hostId \<and> hostId \<noteq> 0 \<longrightarrow>
               (outcome_of fl 0 = Lost_request
                  \<or> (\<exists>e d0. createRoom (db s) roomData hostId = Inl (e, d0)) \<longrightarrow> s' = s)
             \<and> (outcome_of fl 0 \<noteq> Lost_request
                  \<and> createRoom (db s) roomData hostId = Inr (room, d1) \<longrightarrow>
                  room = \<lparr>room_id = ir_id roomData, room_hostId = hostId,
                          room_status = ''waiting'', room_currentPlayerId = None,
                          room_currentRound = 1,
                          room_maxRounds =
                            (case ir_maxRounds roomData of None \<Rightarrow> 5 | Some m \<Rightarrow> m)\<rparr>
                \<and> rooms (db s') = rooms (db s) @ [room]
                \<and> users (db s') = users (db s)
                \<and> gameSubmissions (db s') = gameSubmissions (db s)
                \<and> gameVotes (db s') = gameVotes (db s)
                \<and> code = 400 \<and> body = BError ''Invalid room data''
                \<and> (outcome_of fl 0 = Lost_response \<or> outcome_of fl 1 \<noteq> Lost_response \<longrightarrow>
                     roomPlayers (db s') = roomPlayers (db s))
                \<and> (outcome_of fl 0 = Answered \<longrightarrow>
                     outcome_of fl 1 \<noteq> Answered
                     \<or> (\<exists>e d2. joinRoom d1 \<lparr>irp_roomId = room_id room,
                                              irp_userId = hostId\<rparr> = Inl (e, d2))))))"
proof -
  from handle_registry [of fl s req] assms(1)
  have registry: "roomConnections s' = roomConnections s \<and>
      userConnections s' = userConnections s \<and> readyState s' = readyState s"
    by simp
  note nothing_sent = error_sends_nothing [OF assms]
  have other: "same_rows (db s) (db s')
            \<or> Lost_response \<in> set fl
              \<and> (\<exists>ok. snd (handle [] s req) = Response 200 ok)
              \<and> same_rows (db (fst (handle [] s req))) (db s')"
    if "\<forall>b. req \<noteq> Post_rooms b"
    using that other_route_error [OF assms] by blast
  have create: "(insertRoomSchema b = None \<or> falsy (rb_hostId b) \<longrightarrow> s' = s)
          \<and> (insertRoomSchema b = Some roomData \<and> rb_hostId b = Some hostId \<and> hostId \<noteq> 0 \<longrightarrow>
               (outcome_of fl 0 = Lost_request
                  \<or> (\<exists>e d0. createRoom (db s) roomData hostId = Inl (e, d0)) \<longrightarrow> s' = s)
             \<and> (outcome_of fl 0 \<noteq> Lost_request
                  \<and> createRoom (db s) roomData hostId = Inr (room, d1) \<longrightarrow>
                  room = \<lparr>room_id = ir_id roomData, room_hostId = hostId,
                          room_status = ''waiting'', room_currentPlayerId = None,
                          room_currentRound = 1,
                          room_maxRounds =
                            (case ir_maxRounds roomData of None \<Rightarrow> 5 | Some m \<Rightarrow> m)\<rparr>
                \<and> rooms (db s') = rooms (db s) @ [room]
                \<and> users (db s') = users (db s)
                \<and> gameSubmissions (db s') = gameSubmissions (db s)
                \<and> gameVotes (db s') = gameVotes (db s)
                \<and> code = 400 \<and> body = BError ''Invalid room data''
                \<and> (outcome_of fl 0 = Lost_response \<or> outcome_of fl 1 \<noteq> Lost_response \<longrightarrow>
                     roomPlayers (db s') = roomPlayers (db s))
                \<and> (outcome_of fl 0 = Answered \<longrightarrow>
                     outcome_of fl 1 \<noteq> Answered
                     \<or> (\<exists>e d2. joinRoom d1 \<lparr>irp_roomId = room_id room,
                                              irp_userId = hostId\<rparr> = Inl (e, d2)))))"
    if req: "req = Post_rooms b"
  proof -
    from assms(1) req have r: "post_api_rooms fl s b = (s', Response code body)" by simp
    have invalid: "s' = s" if "insertRoomSchema b = None \<or> falsy (rb_hostId b)"
      using that by (rule create_room_invalid [OF r])
    have rejected: "s' = s"
      if "insertRoomSchema b = Some roomData \<and> rb_hostId b = Some hostId \<and> hostId \<noteq> 0"
        and "outcome_of fl 0 = Lost_request
                  \<or> (\<exists>e d0. createRoom (db s) roomData hostId = Inl (e, d0))"
      using that create_room_rejected [OF r, of roomData hostId] by blast
    have half: "room = \<lparr>room_id = ir_id roomData, room_hostId = hostId,
                          room_status = ''waiting'', room_currentPlayerId = None,
                          room_currentRound = 1,
                          room_maxRounds =
                            (case ir_maxRounds roomData of None \<Rightarrow> 5 | Some m \<Rightarrow> m)\<rparr>
                \<and> rooms (db s') = rooms (db s) @ [room]
                \<and> users (db s') = users (db s)
                \<and> gameSubmissions (db s') = gameSubmissions (db s)
                \<and> gameVotes (db s') = gameVotes (db s)
                \<and> code = 400 \<and> body = BError ''Invalid room data''
                \<and> (outcome_of fl 0 = Lost_response \<or> outcome_of fl 1 \<noteq> Lost_response \<longrightarrow>
                     roomPlayers (db s') = roomPlayers (db s))
                \<and> (outcome_of fl 0 = Answered \<longrightarrow>
                     outcome_of fl 1 \<noteq> Answered
                     \<or> (\<exists>e d2. joinRoom d1 \<lparr>irp_roomId = room_id room,
                                              irp_userId = hostId\<rparr> = Inl (e, d2)))"
      if "insertRoomSchema b = Some roomData \<and> rb_hostId b = Some hostId \<and> hostId \<noteq> 0"
        and "outcome_of fl 0 \<noteq> Lost_request
                  \<and> createRoom (db s) roomData hostId = Inr (room, d1)"
      using that create_room_half [OF r assms(2), of roomData hostId room d1] by blast
    from invalid rejected half show ?thesis
      by blast
  qed
  from registry nothing_sent other create show ?thesis
    by blast
qed

theorem failed_request_leaves_state_witness:
  "snd (handle [] lobby (Post_join ''ABC123'' join_by_stranger)) =
     Response 400 (BError ''Failed to join room'')
   \<and> roomPlayers_id_seq (db lobby) = 2
   \<and> roomPlayers_id_seq (db (fst (handle [] lobby (Post_join ''ABC123'' join_by_stranger)))) = 3
   \<and> same_rows (db lobby) (db (fst (handle [] lobby (Post_join ''ABC123'' join_by_stranger))))
   \<and> sent (fst (handle [] lobby (Post_join ''ABC123'' join_by_stranger))) = sent lobby
   \<and> snd (handle [] lobby (Post_rooms create_abc)) =
       Response 400 (BError ''Invalid room data'')
   \<and> fst (handle [] lobby (Post_rooms create_abc)) = lobby
   \<and> snd (handle [Answered, Lost_request] two_users (Post_rooms create_abc)) =
       Response 400 (BError ''Invalid room data'')
   \<and> rooms (db (fst (handle [Answered, Lost_request] two_users (Post_rooms create_abc)))) =
       [\<lparr>room_id = ''ABC123'', room_hostId = 1, room_status = ''waiting'',
         room_currentPlayerId = None, room_currentRound = 1, room_maxRounds = 5\<rparr>]
   \<and> roomPlayers (db (fst (handle [Answered, Lost_request] two_users
                              (Post_rooms create_abc)))) = []"
proof -
  define s1 where "s1 = fst (handle [] lobby (Post_join ''ABC123'' join_by_stranger))"
  define s2 where "s2 = fst (handle [] lobby (Post_rooms create_abc))"
  define s3 where
    "s3 = fst (handle [Answered, Lost_request] two_users (Post_rooms create_abc))"
  define roomData where "roomData = \<lparr>ir_id = ''ABC123'', ir_maxRounds = Some 5\<rparr>"
  define room where "room = \<lparr>room_id = ''ABC123'', room_hostId = 1, room_status = ''waiting'',
         room_currentPlayerId = None, room_currentRound = 1, room_maxRounds = 5\<rparr>"
  have ok1: "handle [] lobby (Post_join ''ABC123'' join_by_stranger) =
      (s1, Response 400 (BError ''Failed to join room''))"
    using failed_requests_posted(1) by (simp add: s1_def prod_eq_iff del: handle.simps)
  have ok2: "handle [] lobby (Post_rooms create_abc) =
      (s2, Response 400 (BError ''Invalid room data''))"
    using failed_requests_posted(3) by (simp add: s2_def prod_eq_iff del: handle.simps)
  have ok3: "handle [Answered, Lost_request] two_users (Post_rooms create_abc) =
      (s3, Response 400 (BError ''Invalid room data''))"
    using failed_requests_posted(4) by (simp add: s3_def prod_eq_iff del: handle.simps)
  have parsed: "insertRoomSchema create_abc = Some roomData \<and> rb_hostId create_abc = Some 1
      \<and> (1 :: int) \<noteq> 0"
    by (simp add: insertRoomSchema_def create_abc_def roomData_def)
  have taken: "createRoom (db lobby) roomData 1 = Inl (UniqueViolation, db lobby)"
    by (simp add: createRoom_def Let_def int4_def roomData_def lobby_rows)
  have free: "createRoom (db two_users) roomData 1 =
      Inr (room, (db two_users)\<lparr>rooms := rooms (db two_users) @ [room]\<rparr>)"
    by (simp add: createRoom_def Let_def int4_def roomData_def room_def has_room_def
                  two_users_rows)
  have ends: "outcome_of [Answered, Lost_request] 0 = Answered"
    "outcome_of [Answered, Lost_request] (Suc 0) = Lost_request"
    by (simp_all add: outcome_of_def)
  have ne: "(400 :: nat) \<noteq> 200" by simp
  note t1 = failed_request_leaves_state [OF ok1 ne]
  have a: "sent s1 = sent lobby"
    using t1 [THEN conjunct2, THEN conjunct2, THEN conjunct2, THEN conjunct1] .
  have b: "same_rows (db lobby) (db s1)"
    using t1 [THEN conjunct2, THEN conjunct2, THEN conjunct2, THEN conjunct2, THEN conjunct1]
    by simp
  note t2 = failed_request_leaves_state [OF ok2 ne, of create_abc roomData 1,
      THEN conjunct2, THEN conjunct2, THEN conjunct2, THEN conjunct2, THEN conjunct2,
      THEN mp, OF refl, THEN conjunct2, THEN mp, OF parsed, THEN conjunct1, THEN mp]
  have c: "s2 = lobby"
    using taken by (intro t2) blast
  note t3 = failed_request_leaves_state [OF ok3 ne, of create_abc roomData 1 room
      "(db two_users)\<lparr>rooms := rooms (db two_users) @ [room]\<rparr>",
      THEN conjunct2, THEN conjunct2, THEN conjunct2, THEN conjunct2, THEN conjunct2,
      THEN mp, OF refl, THEN conjunct2, THEN mp, OF parsed, THEN conjunct2, THEN mp]
  have "rooms (db s3) = rooms (db two_users) @ [room]
      \<and> roomPlayers (db s3) = roomPlayers (db two_users)"
    using t3 free by (simp add: ends)
  then have d: "rooms (db s3) = [room]" "roomPlayers (db s3) = []"
    by (simp_all add: two_users_rows)
  from failed_requests_posted lobby_rows(2) a b c d show ?thesis
    unfolding s1_def s2_def s3_def room_def by (simp only: simp_thms)
qed

text \<open>
  C9 as stated fails: users 1 and 2 exist, no room does, and user 1 creates ``ABC123''.
  The insert of the room goes through and the insert of the player row does not reach
  the database. The response is the error 400, and the room row is in the table with no
  player row.
\<close>

theorem failed_create_room_leaves_room:
  "rooms (db two_users) = []
   \<and> snd (post_api_rooms [Answered, Lost_request] two_users create_abc) =
       Response 400 (BError ''Invalid room data'')
   \<and> rooms (db (fst (post_api_rooms [Answered, Lost_request] two_users create_abc))) =
       [\<lparr>room_id = ''ABC123'', room_hostId = 1, room_status = ''waiting'',
         room_currentPlayerId = None, room_currentRound = 1, room_maxRounds = 5\<rparr>]
   \<and> roomPlayers (db (fst (post_api_rooms [Answered, Lost_request] two_users create_abc))) = []"
  by code_simp

text \<open>
  C10. On a \<^verbatim>\<open>join_room\<close> message the socket is put into the room's set before
  \<^verbatim>\<open>user_joined\<close> is broadcast: the object with \<^verbatim>\<open>type\<close> ``user_joined'' and the
  \<^verbatim>\<open>userId\<close> of the message goes to the open sockets of the set with the joining socket
  in it, so the joining socket, when it is open, is sent the event announcing its own
  join.
\<close>

theorem join_room_reaches_joiner:
  "sent (ws_on_message s w (Join_room roomId userId)) =
     sent s @ map (\<lambda>x. (x, JSON_stringify
                            (JObj [(''type'', JStr ''user_joined''), (''userId'', JNum userId)])))
                  (filter (\<lambda>x. readyState s x = OPEN) (set_add w (connections_of s roomId)))
   \<and> w \<in> set (connections_of (ws_on_message s w (Join_room roomId userId)) roomId)
   \<and> (readyState s w = OPEN \<longrightarrow>
        (w, JSON_stringify (JObj [(''type'', JStr ''user_joined''), (''userId'', JNum userId)])) \<in>
          set (drop (length (sent s)) (sent (ws_on_message s w (Join_room roomId userId)))))"
  by (auto simp add: ws_join_sent ws_join_connections_of set_add_def user_joined_def)

theorem join_room_reaches_joiner_witness:
  "readyState three_sockets 30 = OPEN \<and>
   sent (ws_on_message three_sockets 30 (Join_room ''A'' 9)) =
     [(10, JObj [(''type'', JStr ''user_joined''), (''userId'', JNum 7)]),
      (10, JObj [(''type'', JStr ''user_joined''), (''userId'', JNum 8)]),
      (20, JObj [(''type'', JStr ''user_joined''), (''userId'', JNum 8)]),
      (30, JObj [(''type'', JStr ''user_joined''), (''userId'', JNum 9)]),
      (10, JObj [(''type'', JStr ''user_joined''), (''userId'', JNum 9)]),
      (30, JObj [(''type'', JStr ''user_joined''), (''userId'', JNum 9)])]
   \<and> (30, JObj [(''type'', JStr ''user_joined''), (''userId'', JNum 9)]) \<in>
       set (drop (length (sent three_sockets))
                 (sent (ws_on_message three_sockets 30 (Join_room ''A'' 9))))"
  using join_room_reaches_joiner [of three_sockets 30 "''A''" 9]
  by (simp add: three_sockets_fields connections_of_def JSON_stringify_def set_add_def
                user_joined_def)

section \<open>Further properties\<close>

text \<open>
  A join request for a room that is found and whose status is not \<open>waiting\<close> is
  answered \<open>GameAlreadyStarted\<close> and changes nothing.
\<close>

theorem join_after_start_is_rejected:
  assumes "\<not> falsy (jb_userId b)" and "\<not> faulty fl 0"
      and "getRoom (db s) roomId = Some room" and "room_status room \<noteq> ''waiting''"
  shows "post_api_rooms_id_join fl s roomId b = (s, GameAlreadyStarted)"
  using assms
  by (auto simp: post_api_rooms_id_join_def query_def faulty_def falsy_def split: option.splits)

theorem join_after_start_is_rejected_witness:
  "post_api_rooms_id_join [] playing ''ABC123'' \<lparr>jb_userId = Some 2\<rparr> =
     (playing, GameAlreadyStarted)"
proof -
  have "\<not> falsy (jb_userId \<lparr>jb_userId = Some 2\<rparr>)" by (simp add: falsy_def)
  moreover have "\<not> faulty [] 0" by (simp add: faulty_def outcome_of_def)
  ultimately show ?thesis
    using join_after_start_is_rejected [OF _ _ playing_fields(1)] by simp
qed

text \<open>
  A successful creation of a room stores one new room row, with status \<open>waiting\<close>,
  round 1, no current player, the id and the host of the request, and one new player row
  for the host in that room with score 0; nothing is broadcast.
\<close>

theorem create_room_stores_room_and_host:
  assumes "post_api_rooms fl s b = (s', Response 200 body)"
  shows "\<exists>room player.
           body = BRoom (Some room)
         \<and> rooms (db s') = rooms (db s) @ [room]
         \<and> roomPlayers (db s') = roomPlayers (db s) @ [player]
         \<and> rb_id b = Some (room_id room) \<and> rb_hostId b = Some (room_hostId room)
         \<and> room_status room = ''waiting'' \<and> room_currentRound room = 1
         \<and> room_currentPlayerId room = None
         \<and> rp_roomId player = room_id room \<and> rp_userId player = room_hostId room
         \<and> rp_score player = 0
         \<and> sent s' = sent s"
proof -
  from create_room_result [OF assms] obtain roomData hostId room d1 player d2 where
    p: "insertRoomSchema b = Some roomData" and h: "rb_hostId b = Some hostId"
    and c: "createRoom (db s) roomData hostId = Inr (room, d1)"
    and j: "joinRoom d1 \<lparr>irp_roomId = room_id room, irp_userId = hostId\<rparr> = Inr (player, d2)"
    and r: "body = BRoom (Some room)" "s' = s\<lparr>db := d2\<rparr>"
    by blast
  from p have i: "rb_id b = Some (ir_id roomData)"
    by (auto simp: insertRoomSchema_def split: option.splits optional.splits)
  from c have c': "d1 = (db s)\<lparr>rooms := rooms (db s) @ [room]\<rparr>" "room_id room = ir_id roomData"
    "room_hostId room = hostId" "room_status room = ''waiting''" "room_currentRound room = 1"
    "room_currentPlayerId room = None"
    by (auto simp: createRoom_def Let_def split: if_splits)
  from j have j': "d2 = d1\<lparr>roomPlayers := roomPlayers d1 @ [player],
                           roomPlayers_id_seq := rp_id player\<rparr>"
    "rp_roomId player = room_id room" "rp_userId player = hostId" "rp_score player = 0"
    by (auto simp: joinRoom_def Let_def split: if_splits)
  show ?thesis
    by (intro exI [of _ room] exI [of _ player]) (simp add: r c' j' h i)
qed

theorem create_room_stores_room_and_host_witness:
  "\<exists>room player.
     snd (post_api_rooms [] two_users create_abc) = Response 200 (BRoom (Some room))
   \<and> rooms (db (fst (post_api_rooms [] two_users create_abc))) = [room]
   \<and> roomPlayers (db (fst (post_api_rooms [] two_users create_abc))) = [player]
   \<and> room_status room = ''waiting'' \<and> rp_userId player = 1 \<and> rp_score player = 0"
proof -
  define s' where "s' = fst (post_api_rooms [] two_users create_abc)"
  define room where "room = \<lparr>room_id = ''ABC123'', room_hostId = 1, room_status = ''waiting'',
         room_currentPlayerId = None, room_currentRound = 1, room_maxRounds = 5\<rparr>"
  have r: "snd (post_api_rooms [] two_users create_abc) = Response 200 (BRoom (Some room))"
    unfolding room_def by code_simp
  have e: "rooms (db two_users) = []" "roomPlayers (db two_users) = []"
    by code_simp+
  have ok: "post_api_rooms [] two_users create_abc = (s', Response 200 (BRoom (Some room)))"
    using r by (simp add: s'_def prod_eq_iff)
  from create_room_stores_room_and_host [OF ok]
  obtain player where "rooms (db s') = [room]" "roomPlayers (db s') = [player]"
    "rp_userId player = room_hostId room" "rp_score player = 0"
    by (auto simp: e)
  with r show ?thesis
    unfolding s'_def [symmetric] by (auto simp: room_def)
qed

text \<open>
  In every state the server can reach, \<^verbatim>\<open>userConnections\<close> has at most one entry per
  user and \<^verbatim>\<open>roomConnections\<close> at most one set per room.
\<close>

theorem registry_has_one_entry_per_key:
  "distinct (map fst (userConnections (run init es))) \<and>
   distinct (map fst (roomConnections (run init es)))"
proof (induction es rule: rev_induct)
  case Nil
  show ?case by (simp add: run_def init_def)
next
  case (snoc e es)
  from registry_keys_step [OF snoc.IH, of e] show ?case
    by (simp add: run_def)
qed

end
